theory Spec2Isabelle
  imports Main
begin

section \<open>JavaScript values used by the map components\<close>

text \<open>
  A JavaScript string is a sequence of UTF-16 code units; each code unit is kept as a
  natural number. String literals of the source are written with \<open>lit\<close>.
\<close>

type_synonym jsstring = "nat list"

definition lit :: "string \<Rightarrow> jsstring" where
  "lit s = map of_char s"

text \<open>
  Numbers. A finite number \<open>Dec m e\<close> stands for \<open>m * 10 ^ e\<close>, the decimal that
  \<open>Number.prototype.toString\<close> prints for it; the binary64 rounding of the source is
  not represented. \<open>Infinity neg\<close> is \<open>-Infinity\<close> when \<open>neg\<close> holds.
\<close>

datatype jsnum = NaN | Infinity bool | Dec int int

text \<open>ToBoolean on a number: \<open>0\<close>, \<open>-0\<close> and \<open>NaN\<close> are falsy.\<close>

fun truthy_num :: "jsnum \<Rightarrow> bool" where
  "truthy_num NaN = False"
| "truthy_num (Infinity neg) = True"
| "truthy_num (Dec m e) = (m \<noteq> 0)"

text \<open>ToBoolean on \<open>number | undefined\<close> and on \<open>string | undefined\<close>.\<close>

fun truthy_num_opt :: "jsnum option \<Rightarrow> bool" where
  "truthy_num_opt None = False"
| "truthy_num_opt (Some x) = truthy_num x"

fun truthy_str_opt :: "jsstring option \<Rightarrow> bool" where
  "truthy_str_opt None = False"
| "truthy_str_opt (Some s) = (s \<noteq> [])"

text \<open>\<open>a || b\<close> where \<open>b\<close> is a number, and where \<open>b\<close> is a string.\<close>

definition or_num :: "jsnum option \<Rightarrow> jsnum \<Rightarrow> jsnum" where
  "or_num a b = (case a of None \<Rightarrow> b | Some x \<Rightarrow> if truthy_num x then x else b)"

definition or_str :: "jsstring option \<Rightarrow> jsstring \<Rightarrow> jsstring" where
  "or_str a b = (case a of None \<Rightarrow> b | Some s \<Rightarrow> if s \<noteq> [] then s else b)"

subsection \<open>Character classes\<close>

text \<open>
  White space and line terminators of ECMAScript: the characters that \<open>\s\<close> matches,
  that \<open>trim\<close> removes, and that \<open>Number\<close> skips around a numeric literal.
\<close>

definition is_line_terminator :: "nat \<Rightarrow> bool" where
  "is_line_terminator c = (c = 10 \<or> c = 13 \<or> c = 8232 \<or> c = 8233)"

definition is_ws :: "nat \<Rightarrow> bool" where
  "is_ws c = (c = 9 \<or> c = 10 \<or> c = 11 \<or> c = 12 \<or> c = 13 \<or> c = 32 \<or> c = 160
     \<or> c = 5760 \<or> (8192 \<le> c \<and> c \<le> 8202) \<or> c = 8232 \<or> c = 8233 \<or> c = 8239
     \<or> c = 8287 \<or> c = 12288 \<or> c = 65279)"

definition is_digit :: "nat \<Rightarrow> bool" where
  "is_digit c = (48 \<le> c \<and> c \<le> 57)"

definition is_alnum :: "nat \<Rightarrow> bool" where
  "is_alnum c = ((97 \<le> c \<and> c \<le> 122) \<or> (65 \<le> c \<and> c \<le> 90) \<or> (48 \<le> c \<and> c \<le> 57))"

text \<open>
  Canonicalisation of the \<open>/i\<close> flag without \<open>/u\<close>: upper-casing, except that a
  character outside ASCII is never mapped into ASCII. Against the ASCII letters of
  \<open>POLYGON\<close> this is ASCII upper-casing.
\<close>

definition to_upper :: "nat \<Rightarrow> nat" where
  "to_upper c = (if 97 \<le> c \<and> c \<le> 122 then c - 32 else c)"

definition trim :: "jsstring \<Rightarrow> jsstring" where
  "trim s = rev (dropWhile is_ws (rev (dropWhile is_ws s)))"

subsection \<open>Number to string and string to number\<close>

fun digits_of :: "nat \<Rightarrow> nat list" where
  "digits_of n = (if n < 10 then [n] else digits_of (n div 10) @ [n mod 10])"

declare digits_of.simps [simp del]

definition digit_chars :: "nat list \<Rightarrow> jsstring" where
  "digit_chars ds = map (\<lambda>d. 48 + d) ds"

text \<open>
  \<open>Number::toString\<close> in radix 10: with \<open>k\<close> significant digits and the decimal point
  after the \<open>n\<close>-th of them, plain notation for \<open>-6 < n \<le> 21\<close>, exponent notation
  outside.
\<close>

definition Number_toString :: "jsnum \<Rightarrow> jsstring" where
  "Number_toString x =
     (case x of
        NaN \<Rightarrow> lit ''NaN''
      | Infinity neg \<Rightarrow> (if neg then lit ''-Infinity'' else lit ''Infinity'')
      | Dec m e \<Rightarrow>
          if m = 0 then lit ''0''
          else
            let ds0 = digits_of (nat \<bar>m\<bar>);
                ds = rev (dropWhile (\<lambda>d. d = 0) (rev ds0));
                k = int (length ds);
                n = int (length ds0) + e;
                sgn = (if m < 0 then lit ''-'' else []);
                cs = digit_chars ds
            in sgn @
               (if k \<le> n \<and> n \<le> 21 then cs @ replicate (nat (n - k)) 48
                else if 0 < n \<and> n \<le> 21 then take (nat n) cs @ [46] @ drop (nat n) cs
                else if - 6 < n \<and> n \<le> 0 then lit ''0.'' @ replicate (nat (- n)) 48 @ cs
                else
                  let ex = n - 1;
                      es = (if ex < 0 then lit ''-'' else lit ''+'')
                           @ digit_chars (digits_of (nat \<bar>ex\<bar>))
                  in if k = 1 then cs @ [101] @ es
                     else take 1 cs @ [46] @ drop 1 cs @ [101] @ es))"

definition digit_val :: "nat \<Rightarrow> nat" where
  "digit_val c =
     (if 48 \<le> c \<and> c \<le> 57 then c - 48
      else if 97 \<le> c \<and> c \<le> 102 then c - 87
      else c - 55)"

definition radix_val :: "nat \<Rightarrow> jsstring \<Rightarrow> nat" where
  "radix_val r s = foldl (\<lambda>acc c. acc * r + digit_val c) 0 s"

definition is_radix_digit :: "nat \<Rightarrow> nat \<Rightarrow> bool" where
  "is_radix_digit r c =
     (if r = 16 then is_digit c \<or> (97 \<le> c \<and> c \<le> 102) \<or> (65 \<le> c \<and> c \<le> 70)
      else 48 \<le> c \<and> c < 48 + r)"

text \<open>
  An unsigned decimal literal: digits, an optional fraction, an optional exponent;
  at least one digit before the exponent. The result is mantissa and decimal exponent.
\<close>

definition parse_exponent :: "jsstring \<Rightarrow> int option" where
  "parse_exponent r =
     (let neg = (case r of [] \<Rightarrow> False | x # _ \<Rightarrow> x = 45);
          ds = (case r of [] \<Rightarrow> [] | x # r' \<Rightarrow> if x = 45 \<or> x = 43 then r' else r)
      in if ds \<noteq> [] \<and> list_all is_digit ds
         then Some (if neg then - int (radix_val 10 ds) else int (radix_val 10 ds))
         else None)"

definition parse_decimal :: "jsstring \<Rightarrow> (int \<times> int) option" where
  "parse_decimal s =
     (let ip = takeWhile is_digit s;
          r1 = dropWhile is_digit s;
          has_dot = (case r1 of [] \<Rightarrow> False | c # _ \<Rightarrow> c = 46);
          fp = (if has_dot then takeWhile is_digit (tl r1) else []);
          r2 = (if has_dot then dropWhile is_digit (tl r1) else r1);
          m = int (radix_val 10 (ip @ fp))
      in if ip = [] \<and> fp = [] then None
         else (case r2 of
                 [] \<Rightarrow> Some (m, - int (length fp))
               | c # r \<Rightarrow>
                   if c = 101 \<or> c = 69
                   then (case parse_exponent r of
                           None \<Rightarrow> None
                         | Some ex \<Rightarrow> Some (m, ex - int (length fp)))
                   else None))"

definition parse_radix :: "nat \<Rightarrow> jsstring \<Rightarrow> jsnum" where
  "parse_radix r ds =
     (if ds \<noteq> [] \<and> list_all (is_radix_digit r) ds then Dec (int (radix_val r ds)) 0
      else NaN)"

text \<open>
  \<open>Number(s)\<close> on a string: surrounding white space is skipped, the empty string is
  \<open>0\<close>, then a signed decimal literal or \<open>Infinity\<close>, or an unsigned hexadecimal,
  octal or binary integer literal; anything else is \<open>NaN\<close>.
\<close>

definition Number :: "jsstring \<Rightarrow> jsnum" where
  "Number s0 =
     (let s = trim s0 in
      if s = [] then Dec 0 0
      else if length s \<ge> 2 \<and> hd s = 48 \<and> (s ! 1 = 120 \<or> s ! 1 = 88)
        then parse_radix 16 (drop 2 s)
      else if length s \<ge> 2 \<and> hd s = 48 \<and> (s ! 1 = 111 \<or> s ! 1 = 79)
        then parse_radix 8 (drop 2 s)
      else if length s \<ge> 2 \<and> hd s = 48 \<and> (s ! 1 = 98 \<or> s ! 1 = 66)
        then parse_radix 2 (drop 2 s)
      else
        let neg = (hd s = 45);
            body = (if hd s = 45 \<or> hd s = 43 then tl s else s)
        in if body = lit ''Infinity'' then Infinity neg
           else (case parse_decimal body of
                   None \<Rightarrow> NaN
                 | Some (m, e) \<Rightarrow> Dec (if neg then - m else m) e))"

section \<open>Serialisation and the map-surface identifier\<close>

text \<open>
  The exceptions of the model: the one of \<open>btoa\<close>, and the ones Leaflet throws in
  the effect (no element for the map, an invalid coordinate, a layer that cannot be
  drawn).
\<close>

datatype js_error =
    InvalidCharacterError
  | MapContainerNotFound
  | InvalidLatLng
  | LayerTypeError

subsection \<open>\<open>JSON.stringify\<close>\<close>

definition hex_digit :: "nat \<Rightarrow> nat" where
  "hex_digit d = (if d < 10 then 48 + d else 87 + d)"

definition unicode_escape :: "nat \<Rightarrow> jsstring" where
  "unicode_escape c =
     [92, 117, hex_digit (c div 4096 mod 16), hex_digit (c div 256 mod 16),
      hex_digit (c div 16 mod 16), hex_digit (c mod 16)]"

definition is_lead_surrogate :: "nat \<Rightarrow> bool" where
  "is_lead_surrogate c = (55296 \<le> c \<and> c \<le> 56319)"

definition is_trail_surrogate :: "nat \<Rightarrow> bool" where
  "is_trail_surrogate c = (56320 \<le> c \<and> c \<le> 57343)"

text \<open>
  The body of \<open>QuoteJSONString\<close>: the short escapes, \<open>\uXXXX\<close> for the other control
  characters and for a surrogate that is not half of a pair, every other code unit as
  it is (so a character above U+00FF stays in the output).
\<close>

fun quote_body :: "jsstring \<Rightarrow> jsstring" where
  "quote_body [] = []"
| "quote_body [c] =
     (if c = 8 then [92, 98] else if c = 9 then [92, 116]
      else if c = 10 then [92, 110] else if c = 12 then [92, 102]
      else if c = 13 then [92, 114] else if c = 34 then [92, 34]
      else if c = 92 then [92, 92]
      else if c < 32 \<or> is_lead_surrogate c \<or> is_trail_surrogate c then unicode_escape c
      else [c])"
| "quote_body (c # d # ds) =
     (if is_lead_surrogate c \<and> is_trail_surrogate d then c # d # quote_body ds
      else quote_body [c] @ quote_body (d # ds))"

definition quote_json :: "jsstring \<Rightarrow> jsstring" where
  "quote_json s = [34] @ quote_body s @ [34]"

fun join_with :: "jsstring \<Rightarrow> jsstring list \<Rightarrow> jsstring" where
  "join_with sep [] = []"
| "join_with sep [x] = x"
| "join_with sep (x # y # ys) = x @ sep @ join_with sep (y # ys)"

definition json_number :: "jsnum \<Rightarrow> jsstring" where
  "json_number x =
     (case x of Dec m e \<Rightarrow> Number_toString (Dec m e) | _ \<Rightarrow> lit ''null'')"

definition json_bool :: "bool \<Rightarrow> jsstring" where
  "json_bool b = (if b then lit ''true'' else lit ''false'')"

text \<open>A property whose value is \<open>undefined\<close> is left out of the object.\<close>

definition json_member :: "string \<Rightarrow> ('a \<Rightarrow> jsstring) \<Rightarrow> 'a option \<Rightarrow> jsstring list" where
  "json_member key enc v =
     (case v of None \<Rightarrow> [] | Some x \<Rightarrow> [quote_json (lit key) @ [58] @ enc x])"

text \<open>The type \<open>LocationPoint\<close> of \<open>map.tsx\<close>; every property is optional.\<close>

record LocationPoint =
  lat :: "jsnum option"
  lon :: "jsnum option"
  address :: "jsstring option"
  label :: "jsstring option"
  isOrigin :: "bool option"
  isDestination :: "bool option"
  geometry :: "jsstring option"
  nodeType :: "jsstring option"

text \<open>
  \<open>JSON.stringify\<close> writes the properties in the order the object holds them; the
  order taken here is the one of the type, which is also the order in which
  \<open>MapPanel\<close> builds its points.
\<close>

definition json_location :: "LocationPoint \<Rightarrow> jsstring" where
  "json_location p =
     [123] @ join_with [44]
       (json_member ''lat'' json_number (lat p)
        @ json_member ''lon'' json_number (lon p)
        @ json_member ''address'' quote_json (address p)
        @ json_member ''label'' quote_json (label p)
        @ json_member ''isOrigin'' json_bool (isOrigin p)
        @ json_member ''isDestination'' json_bool (isDestination p)
        @ json_member ''geometry'' quote_json (geometry p)
        @ json_member ''nodeType'' quote_json (nodeType p))
     @ [125]"

definition JSON_stringify :: "LocationPoint list \<Rightarrow> jsstring" where
  "JSON_stringify locations = [91] @ join_with [44] (map json_location locations) @ [93]"

subsection \<open>\<open>btoa\<close>\<close>

definition b64char :: "nat \<Rightarrow> nat" where
  "b64char n =
     (if n < 26 then 65 + n else if n < 52 then 71 + n
      else if n < 62 then n - 4 else if n = 62 then 43 else 47)"

fun b64enc :: "nat list \<Rightarrow> jsstring" where
  "b64enc [] = []"
| "b64enc [a] = [b64char (a div 4), b64char (a mod 4 * 16), 61, 61]"
| "b64enc [a, b] =
     [b64char (a div 4), b64char (a mod 4 * 16 + b div 16), b64char (b mod 16 * 4), 61]"
| "b64enc (a # b # c # rest) =
     [b64char (a div 4), b64char (a mod 4 * 16 + b div 16),
      b64char (b mod 16 * 4 + c div 64), b64char (c mod 64)] @ b64enc rest"

text \<open>
  \<open>btoa\<close> reads each code unit as one byte and throws \<open>InvalidCharacterError\<close> when
  a code unit is above 255.
\<close>

definition btoa :: "jsstring \<Rightarrow> js_error + jsstring" where
  "btoa s = (if list_ex (\<lambda>c. 255 < c) s then Inl InvalidCharacterError else Inr (b64enc s))"

text \<open>
  \<^verbatim>\<open>const mapId = `leaflet-map-${btoa(JSON.stringify(locations)).replace(/[^a-zA-Z0-9]/g, '')}`\<close>
\<close>

definition mapId :: "LocationPoint list \<Rightarrow> js_error + jsstring" where
  "mapId locations =
     (case btoa (JSON_stringify locations) of
        Inl e \<Rightarrow> Inl e
      | Inr b \<Rightarrow> Inr (lit ''leaflet-map-'' @ filter is_alnum b))"

section \<open>The map renderer (\<open>map.tsx\<close>)\<close>

text \<open>A coordinate pair is \<open>(lat, lon)\<close>.\<close>

type_synonym Coordinates = "jsnum \<times> jsnum"

record RouteData =
  coordinates :: "Coordinates list"
  distanceM :: "jsnum option"
  color :: "jsstring option"

text \<open>
  The properties of the component; \<open>None\<close> is a property the caller left out, for
  which the destructuring default applies.
\<close>

record MapFromAddressProps =
  locations :: "LocationPoint list"
  height :: "jsstring option"
  zoom :: "jsnum option"
  centerOnFirst :: "bool option"
  route :: "RouteData option"

text \<open>
  What \<open>useQuery\<close> hands back on a render. The query library and the network are
  outside the component, so the result is an input of the model.
\<close>

record 'd UseQueryResult =
  data :: "'d option"
  isLoading :: bool
  isError :: bool

subsection \<open>Geocoding\<close>

text \<open>
  \<^verbatim>\<open>locations.filter((loc) => loc.lat === undefined && loc.lon === undefined && loc.address)\<close>
\<close>

definition locationsToGeocode :: "LocationPoint list \<Rightarrow> LocationPoint list" where
  "locationsToGeocode locs =
     filter (\<lambda>loc. lat loc = None \<and> lon loc = None \<and> truthy_str_opt (address loc)) locs"

definition geocode_queryKey :: "LocationPoint list \<Rightarrow> jsstring option list" where
  "geocode_queryKey locs = map address (locationsToGeocode locs)"

definition geocode_enabled :: "LocationPoint list \<Rightarrow> bool" where
  "geocode_enabled locs = (length (locationsToGeocode locs) > 0)"

text \<open>
  The addresses the query function sends to the geocoding service, in order: one per
  element of \<open>locationsToGeocode\<close>, skipping an element without address.
\<close>

definition geocode_lookups :: "LocationPoint list \<Rightarrow> jsstring list" where
  "geocode_lookups locs =
     concat (map (\<lambda>location. if truthy_str_opt (address location)
                                then [the (address location)] else [])
                 (locationsToGeocode locs))"

text \<open>
  The query function, over the service's answer to a search (the list of hits, each
  with its parsed coordinates): no hit gives \<open>null\<close>, otherwise the first hit.
\<close>

definition geocode_queryFn ::
  "(jsstring \<Rightarrow> Coordinates list) \<Rightarrow> LocationPoint list \<Rightarrow> Coordinates option list" where
  "geocode_queryFn search locs =
     map (\<lambda>a. case search a of [] \<Rightarrow> None | hit # _ \<Rightarrow> Some hit) (geocode_lookups locs)"

subsection \<open>Resolved locations\<close>

record ProcessedLocation =
  p_location :: LocationPoint
  p_coordinates :: "Coordinates option"
  p_isLoading :: bool
  p_isError :: bool

text \<open>\<open>Array.prototype.findIndex\<close>; \<open>None\<close> is the result \<open>-1\<close>.\<close>

fun findIndex :: "('a \<Rightarrow> bool) \<Rightarrow> 'a list \<Rightarrow> nat option" where
  "findIndex P [] = None"
| "findIndex P (x # xs) = (if P x then Some 0 else map_option Suc (findIndex P xs))"

text \<open>
  One element of \<open>processedLocations\<close>: a location with both coordinates keeps them;
  otherwise its address is searched among \<open>locationsToGeocode\<close> and, if it is found
  and the query has data, the result at that index is taken; otherwise there are no
  coordinates. Reading the result array past its end gives \<open>undefined\<close>, which the
  later tests treat like \<open>null\<close>.
\<close>

definition processLocation ::
  "LocationPoint list \<Rightarrow> (Coordinates option list) UseQueryResult \<Rightarrow> LocationPoint
     \<Rightarrow> ProcessedLocation" where
  "processLocation locs geocodeQuery location =
     (if lat location \<noteq> None \<and> lon location \<noteq> None
      then \<lparr>p_location = location,
            p_coordinates = Some (the (lat location), the (lon location)),
            p_isLoading = False, p_isError = False\<rparr>
      else
        (case (findIndex (\<lambda>loc. address loc = address location) (locationsToGeocode locs),
               data geocodeQuery) of
           (Some geocodeIndex, Some results) \<Rightarrow>
             \<lparr>p_location = location,
              p_coordinates = (if geocodeIndex < length results
                               then results ! geocodeIndex else None),
              p_isLoading = isLoading geocodeQuery, p_isError = isError geocodeQuery\<rparr>
         | _ \<Rightarrow>
             \<lparr>p_location = location, p_coordinates = None,
              p_isLoading = isLoading geocodeQuery, p_isError = isError geocodeQuery\<rparr>))"

definition processedLocations ::
  "LocationPoint list \<Rightarrow> (Coordinates option list) UseQueryResult \<Rightarrow> ProcessedLocation list"
  where
  "processedLocations locs geocodeQuery = map (processLocation locs geocodeQuery) locs"

definition validCoordinates :: "ProcessedLocation list \<Rightarrow> Coordinates list" where
  "validCoordinates processed =
     map (\<lambda>location. the (p_coordinates location))
         (filter (\<lambda>location. p_coordinates location \<noteq> None) processed)"

subsection \<open>Parsing a building footprint\<close>

text \<open>
  \<open>s.split(sep)\<close> for a separator of one character; the source splits on the comma.
  The empty string gives one empty piece.
\<close>

fun split_on :: "nat \<Rightarrow> jsstring \<Rightarrow> jsstring list" where
  "split_on sep [] = [[]]"
| "split_on sep (c # cs) =
     (if c = sep then [] # split_on sep cs
      else (case split_on sep cs of
              [] \<Rightarrow> [[c]]
            | x # xs \<Rightarrow> (c # x) # xs))"

text \<open>\<open>s.split(/\s+/)\<close>: the pieces between maximal runs of white space.\<close>

function split_ws_aux :: "jsstring \<Rightarrow> jsstring \<Rightarrow> jsstring list" where
  "split_ws_aux cur [] = [rev cur]"
| "split_ws_aux cur (c # cs) =
     (if is_ws c then rev cur # split_ws_aux [] (dropWhile is_ws cs)
      else split_ws_aux (c # cur) cs)"
  by pat_completeness auto
termination
  by (relation "measure (\<lambda>(cur, s). length s)")
     (auto simp: length_dropWhile_le less_Suc_eq_le)

definition split_ws :: "jsstring \<Rightarrow> jsstring list" where
  "split_ws s = split_ws_aux [] s"

text \<open>
  The regular expression \<^verbatim>\<open>/POLYGON\s*\(\((.*?)\)\)/i\<close>. \<open>lazy_body\<close> is the group
  \<^verbatim>\<open>(.*?)\<close> followed by \<^verbatim>\<open>\)\)\<close>: the shortest run of characters other than line
  terminators that two closing parentheses follow. \<open>match_here\<close> is the expression
  tried at the start of its argument, \<open>wkt_match\<close> the first position of the string at
  which it matches; the result is the text of group 1.
\<close>

fun lazy_body :: "jsstring \<Rightarrow> jsstring option" where
  "lazy_body [] = None"
| "lazy_body [c] = None"
| "lazy_body (c # d # ds) =
     (if c = 41 \<and> d = 41 then Some []
      else if is_line_terminator c then None
      else map_option ((#) c) (lazy_body (d # ds)))"

definition match_here :: "jsstring \<Rightarrow> jsstring option" where
  "match_here s =
     (if length s \<ge> 7 \<and> map to_upper (take 7 s) = lit ''POLYGON''
      then (case dropWhile is_ws (drop 7 s) of
              c # d # body \<Rightarrow> if c = 40 \<and> d = 40 then lazy_body body else None
            | _ \<Rightarrow> None)
      else None)"

fun wkt_match :: "jsstring \<Rightarrow> jsstring option" where
  "wkt_match [] = None"
| "wkt_match (c # cs) =
     (case match_here (c # cs) of
        Some body \<Rightarrow> Some body
      | None \<Rightarrow> wkt_match cs)"

text \<open>
  One coordinate pair: \<^verbatim>\<open>const [lon, lat] = pair.trim().split(/\s+/).map(Number)\<close>, returned
  as \<open>[lat, lon]\<close>. The split always has a first piece; without a second one \<open>lat\<close> is
  \<open>undefined\<close>.
\<close>

definition parse_pair :: "jsstring \<Rightarrow> jsnum option \<times> jsnum option" where
  "parse_pair pair =
     (case map Number (split_ws (trim pair)) of
        [] \<Rightarrow> (None, None)
      | [lon'] \<Rightarrow> (None, Some lon')
      | lon' # lat' # _ \<Rightarrow> (Some lat', Some lon'))"

definition coordPairs :: "jsstring \<Rightarrow> (jsnum option \<times> jsnum option) list" where
  "coordPairs body = map parse_pair (split_on 44 body)"

text \<open>
  The coordinate pairs handed to \<open>L.polygon\<close> for a geometry string, or \<open>None\<close> when
  the callback returns before it: no match, or fewer than three pairs.
\<close>

definition parse_wkt :: "jsstring \<Rightarrow> (jsnum option \<times> jsnum option) list option" where
  "parse_wkt wkt =
     (case wkt_match wkt of
        None \<Rightarrow> None
      | Some body \<Rightarrow> if length (coordPairs body) < 3 then None else Some (coordPairs body))"

subsection \<open>The rendered output\<close>

datatype rendered =
    LoadingPlaceholder
  | ErrorPlaceholder
  | NoLocationPlaceholder
  | MapSurface jsstring jsstring

text \<open>
  The component function. \<open>mapId\<close> is computed in the body before any of the
  \<open>return\<close> statements, outside every \<open>try\<close>, so its exception leaves the component.
  \<open>MapSurface i h\<close> is the \<open>div\<close> with identifier \<open>i\<close> and minimal height \<open>h\<close>.
\<close>

definition MapFromAddress ::
  "MapFromAddressProps \<Rightarrow> (Coordinates option list) UseQueryResult \<Rightarrow> js_error + rendered"
  where
  "MapFromAddress props geocodeQuery =
     (case mapId (locations props) of
        Inl e \<Rightarrow> Inl e
      | Inr i \<Rightarrow>
          Inr (if isLoading geocodeQuery then LoadingPlaceholder
               else if isError geocodeQuery then ErrorPlaceholder
               else if length (validCoordinates
                                 (processedLocations (locations props) geocodeQuery)) = 0
                 then NoLocationPlaceholder
               else MapSurface i (case height props of None \<Rightarrow> lit ''400px'' | Some h \<Rightarrow> h)))"

subsection \<open>The effect: what is drawn on the map\<close>

text \<open>
  The effect runs after a render that returned, on the output of that render. It is
  modelled by the calls it makes on the Leaflet map, in the order of the source: the
  markers added, the polygons and the polyline requested, and the calls that set the
  view. The view a user sees is the one of the last such call. An exception of a call
  outside the \<open>try\<close> of the polygon pass ends the effect.
\<close>

record Marker =
  position :: Coordinates
  icon_color :: jsstring
  zIndexOffset :: nat

text \<open>
  The popup of a marker: \<^verbatim>\<open>location.label || location.address || `${lat.toFixed(6)}, ${lon.toFixed(6)}`\<close>;
  \<open>CoordinateText\<close> stands for the third alternative.
\<close>

datatype popup = Text jsstring | CoordinateText Coordinates | DistanceText jsnum

record Polygon =
  latlngs :: "(jsnum option \<times> jsnum option) list"
  polygon_color :: jsstring
  polygon_popup :: jsstring

record Polyline =
  line_latlngs :: "Coordinates list"
  line_color :: jsstring
  line_popup :: "popup option"

datatype bounds = PolylineBounds "Coordinates list" | FeatureGroupBounds "Marker list"

text \<open>\<open>fitBounds_pad b r\<close> is \<^verbatim>\<open>map.fitBounds(b.pad(r))\<close>.\<close>

datatype view_call = setView Coordinates jsnum | fitBounds_pad bounds jsnum

record LeafletMap =
  tile_source :: jsstring
  markers :: "(Marker \<times> popup) list"
  polygons :: "Polygon list"
  polyline :: "Polyline option"
  view_calls :: "view_call list"

text \<open>
  Leaflet is a library outside the repository; the effect depends on it as follows.
  \<^item> \<open>L.map(id)\<close> throws when the document has no element with that identifier: the
    element is the \<open>div\<close> of the map surface, absent when a placeholder was rendered.
  \<^item> The constructor of a coordinate throws when a component is \<open>NaN\<close> or \<open>undefined\<close>
    (its test is \<open>isNaN\<close>); \<open>L.marker\<close> and \<open>L.polyline\<close> construct the coordinates
    they are given.
  \<^item> \<open>L.polygon\<close> constructs the coordinates of its entries when the first component
    of the first entry is defined. When it is \<open>undefined\<close> the entries are taken for
    rings of coordinates, nothing is constructed and nothing is thrown; the layer that
    results cannot be drawn, and the first call that gives the map a view, which draws
    the layers added so far, throws.
\<close>

fun isNaN :: "jsnum \<Rightarrow> bool" where
  "isNaN NaN = True"
| "isNaN (Infinity neg) = False"
| "isNaN (Dec m e) = False"

definition isNaN_opt :: "jsnum option \<Rightarrow> bool" where
  "isNaN_opt x = (case x of None \<Rightarrow> True | Some y \<Rightarrow> isNaN y)"

definition invalid_LatLng :: "Coordinates \<Rightarrow> bool" where
  "invalid_LatLng c = (isNaN (fst c) \<or> isNaN (snd c))"

definition invalid_pair :: "jsnum option \<times> jsnum option \<Rightarrow> bool" where
  "invalid_pair pr = (isNaN_opt (fst pr) \<or> isNaN_opt (snd pr))"

datatype polygon_layer = PolygonThrows | PolygonLayer | BrokenLayer

definition L_polygon :: "(jsnum option \<times> jsnum option) list \<Rightarrow> polygon_layer" where
  "L_polygon pairs =
     (case pairs of
        [] \<Rightarrow> PolygonLayer
      | first # _ \<Rightarrow>
          if fst first = None then BrokenLayer
          else if list_ex invalid_pair pairs then PolygonThrows
          else PolygonLayer)"

definition customIcon_color :: "jsstring \<Rightarrow> jsstring" where
  "customIcon_color theme = (if theme = lit ''dark'' then lit ''#3b82f6'' else lit ''#2563eb'')"

text \<open>The first \<open>forEach\<close>: a marker for every location that has coordinates.\<close>

definition make_marker :: "jsstring \<Rightarrow> ProcessedLocation \<Rightarrow> (Marker \<times> popup) list" where
  "make_marker theme location =
     (case p_coordinates location of
        None \<Rightarrow> []
      | Some c \<Rightarrow>
          [(\<lparr>position = c,
             icon_color =
               (if isOrigin (p_location location) = Some True then lit ''#22c55e''
                else if isDestination (p_location location) = Some True then lit ''#ef4444''
                else customIcon_color theme),
             zIndexOffset =
               (if isOrigin (p_location location) = Some True then 1000
                else if isDestination (p_location location) = Some True then 1000
                else 0)\<rparr>,
            (if truthy_str_opt (label (p_location location))
             then Text (the (label (p_location location)))
             else if truthy_str_opt (address (p_location location))
             then Text (the (address (p_location location)))
             else CoordinateText c))])"

text \<open>
  The second \<open>forEach\<close>, for one location. The callback returns early without
  geometry, for a node type other than \<open>building\<close>, without a match and with fewer than
  three entries (\<open>NotCalled\<close>). Otherwise it calls \<open>L.polygon\<close> inside \<open>try\<close>: an
  exception of the call is caught and logged (\<open>Warned\<close>), and else the layer is added
  to the map, one that can be drawn (\<open>Added\<close>) or not (\<open>AddedBroken\<close>).
\<close>

datatype polygon_call = NotCalled | Warned | Added Polygon | AddedBroken Polygon

definition make_polygon :: "jsstring \<Rightarrow> ProcessedLocation \<Rightarrow> polygon_call" where
  "make_polygon theme location =
     (if \<not> truthy_str_opt (geometry (p_location location)) then NotCalled
      else if nodeType (p_location location) \<noteq> Some (lit ''building'') then NotCalled
      else (case parse_wkt (the (geometry (p_location location))) of
              None \<Rightarrow> NotCalled
            | Some pairs \<Rightarrow>
                (let polygon =
                   \<lparr>latlngs = pairs,
                    polygon_color =
                      (if theme = lit ''dark'' then lit ''#f59e0b'' else lit ''#d97706''),
                    polygon_popup = or_str (label (p_location location)) (lit ''Building'')\<rparr>
                 in case L_polygon pairs of
                      PolygonThrows \<Rightarrow> Warned
                    | PolygonLayer \<Rightarrow> Added polygon
                    | BrokenLayer \<Rightarrow> AddedBroken polygon)))"

fun added_polygon :: "polygon_call \<Rightarrow> Polygon list" where
  "added_polygon (Added p) = [p]"
| "added_polygon c = []"

fun is_broken :: "polygon_call \<Rightarrow> bool" where
  "is_broken (AddedBroken p) = True"
| "is_broken c = False"

text \<open>The route: drawn, and the bounds fitted to it, for more than one coordinate.\<close>

definition route_shown :: "RouteData option \<Rightarrow> bool" where
  "route_shown r = (case r of None \<Rightarrow> False | Some rd \<Rightarrow> length (coordinates rd) > 1)"

definition make_polyline :: "jsstring \<Rightarrow> RouteData \<Rightarrow> Polyline" where
  "make_polyline theme rd =
     \<lparr>line_latlngs = coordinates rd,
      line_color = or_str (color rd)
                     (if theme = lit ''dark'' then lit ''#ef4444'' else lit ''#dc2626''),
      line_popup = (if truthy_num_opt (distanceM rd)
                    then Some (DistanceText (the (distanceM rd))) else None)\<rparr>"

definition route_view_calls :: "RouteData option \<Rightarrow> view_call list" where
  "route_view_calls r =
     (if route_shown r
      then [fitBounds_pad (PolylineBounds (coordinates (the r))) (Dec 1 (- 1))]
      else [])"

text \<open>
  The statement under the comment \<open>Set map view\<close>, which follows the route block:
  centre on the first valid coordinate when \<open>centerOnFirst\<close> holds, else fit the
  bounds of all markers for more than one coordinate, else centre on the single one.
\<close>

definition set_map_view ::
  "bool \<Rightarrow> jsnum \<Rightarrow> Coordinates list \<Rightarrow> (Marker \<times> popup) list \<Rightarrow> view_call list" where
  "set_map_view centerOnFirst' zoom' valid ms =
     (if centerOnFirst' \<and> length valid > 0 then [setView (hd valid) zoom']
      else if length valid > 1
        then [fitBounds_pad (FeatureGroupBounds (map fst ms)) (Dec 1 (- 1))]
      else if length valid = 1 then [setView (hd valid) zoom']
      else [])"

fun is_surface :: "rendered \<Rightarrow> bool" where
  "is_surface (MapSurface i h) = True"
| "is_surface output = False"

text \<open>
  \<open>L.map(mapId)\<close> finds its element: the output of the render is the map surface, and
  its identifier is the \<open>mapId\<close> of the point list.
\<close>

definition container_found :: "rendered \<Rightarrow> LocationPoint list \<Rightarrow> bool" where
  "container_found output locs =
     (case output of MapSurface i h \<Rightarrow> mapId locs = Inr i | _ \<Rightarrow> False)"

text \<open>
  The effect as a whole, after a render with the given output. \<open>Inr None\<close> is the early
  return for an empty list of valid coordinates, in which no map is created. Otherwise
  the steps are, in order: \<open>L.map(mapId)\<close>, which needs the map surface; the markers,
  each with the coordinate it constructs; the polygon pass; the polyline of a route of
  more than one coordinate, again with its coordinates; and the view calls, the first
  of which draws the layers.
\<close>

definition map_effect ::
  "rendered \<Rightarrow> MapFromAddressProps \<Rightarrow> (Coordinates option list) UseQueryResult \<Rightarrow> jsstring
     \<Rightarrow> js_error + LeafletMap option" where
  "map_effect output props geocodeQuery theme =
     (let processed = processedLocations (locations props) geocodeQuery;
          valid = validCoordinates processed;
          zoom' = (case zoom props of None \<Rightarrow> Dec 15 0 | Some z \<Rightarrow> z);
          centerOnFirst' = (case centerOnFirst props of None \<Rightarrow> True | Some b \<Rightarrow> b);
          ms = concat (map (make_marker theme) processed);
          calls = map (make_polygon theme) processed
      in if length valid = 0 then Inr None
         else if \<not> container_found output (locations props) then Inl MapContainerNotFound
         else if list_ex invalid_LatLng valid then Inl InvalidLatLng
         else if route_shown (route props)
                 \<and> list_ex invalid_LatLng (coordinates (the (route props)))
           then Inl InvalidLatLng
         else if list_ex is_broken calls then Inl LayerTypeError
         else Inr (Some
           \<lparr>tile_source = (if theme = lit ''dark'' then lit ''alidade_smooth_dark''
                            else lit ''alidade_smooth''),
            markers = ms,
            polygons = concat (map added_polygon calls),
            polyline = (if route_shown (route props)
                        then Some (make_polyline theme (the (route props))) else None),
            view_calls = route_view_calls (route props)
                         @ set_map_view centerOnFirst' zoom' valid ms\<rparr>))"

text \<open>
  A render and the effect after it: an exception of the render leaves no effect to
  run; otherwise the result is the output with what the effect did.
\<close>

definition render_and_effect ::
  "MapFromAddressProps \<Rightarrow> (Coordinates option list) UseQueryResult \<Rightarrow> jsstring
     \<Rightarrow> js_error + rendered \<times> LeafletMap option" where
  "render_and_effect props geocodeQuery theme =
     (case MapFromAddress props geocodeQuery of
        Inl e \<Rightarrow> Inl e
      | Inr output \<Rightarrow>
          (case map_effect output props geocodeQuery theme of
             Inl e \<Rightarrow> Inl e
           | Inr m \<Rightarrow> Inr (output, m)))"

definition final_view :: "LeafletMap \<Rightarrow> view_call option" where
  "final_view m = (if view_calls m = [] then None else Some (last (view_calls m)))"

section \<open>The panel controller (\<open>map-panel.tsx\<close>)\<close>

text \<open>
  The nodes of the graph store. The store's type declarations are not part of the
  sources; the properties are the ones \<open>MapPanel\<close> reads, typed as the \<open>LocationPoint\<close>
  they are copied into.
\<close>

record NodeProperties =
  latitude :: "jsnum option"
  longitude :: "jsnum option"
  address_p :: "jsstring option"
  name_p :: "jsstring option"
  label_p :: "jsstring option"
  geometry_p :: "jsstring option"

record GraphNode =
  nodeId :: jsstring
  nodeType_n :: jsstring
  nodeProperties :: NodeProperties

text \<open>
  The callback of \<open>filter\<close>:
  \<^verbatim>\<open>node.nodeType === 'location' || node.nodeType === 'place' || node.nodeType === 'building' || (node.nodeProperties.latitude && node.nodeProperties.longitude)\<close>
\<close>

definition isLocationNode :: "GraphNode \<Rightarrow> bool" where
  "isLocationNode node =
     (nodeType_n node = lit ''location'' \<or> nodeType_n node = lit ''place''
      \<or> nodeType_n node = lit ''building''
      \<or> (truthy_num_opt (latitude (nodeProperties node))
          \<and> truthy_num_opt (longitude (nodeProperties node))))"

text \<open>
  The callback of \<open>map\<close>, with \<^verbatim>\<open>lat: node.nodeProperties.latitude || 0\<close>, the address and
  the label falling back to the name and then to the empty string, and the two flags
  guarded by \<^verbatim>\<open>selectedNodes.length === 2\<close>.
\<close>

definition locationPoint :: "GraphNode list \<Rightarrow> GraphNode \<Rightarrow> LocationPoint" where
  "locationPoint selectedNodes node =
     \<lparr>lat = Some (or_num (latitude (nodeProperties node)) (Dec 0 0)),
      lon = Some (or_num (longitude (nodeProperties node)) (Dec 0 0)),
      address = Some (if truthy_str_opt (address_p (nodeProperties node))
                      then the (address_p (nodeProperties node))
                      else or_str (name_p (nodeProperties node)) []),
      label = Some (if truthy_str_opt (label_p (nodeProperties node))
                    then the (label_p (nodeProperties node))
                    else or_str (name_p (nodeProperties node)) []),
      isOrigin = Some (if length selectedNodes = 2
                       then nodeId node = nodeId (selectedNodes ! 0) else False),
      isDestination = Some (if length selectedNodes = 2
                            then nodeId node = nodeId (selectedNodes ! 1) else False),
      geometry = geometry_p (nodeProperties node),
      nodeType = Some (nodeType_n node)\<rparr>"

definition locationNodes :: "GraphNode list \<Rightarrow> GraphNode list \<Rightarrow> LocationPoint list" where
  "locationNodes nodes selectedNodes =
     map (locationPoint selectedNodes) (filter isLocationNode nodes)"

subsection \<open>The route query\<close>

text \<open>\<open>sketchId\<close> is \<open>params?.id\<close>, absent when the route has no such parameter.\<close>

definition routeQuery_key ::
  "jsstring option \<Rightarrow> GraphNode list \<Rightarrow> jsstring \<times> jsstring option \<times> jsstring list" where
  "routeQuery_key sketchId selectedNodes = (lit ''route'', sketchId, map nodeId selectedNodes)"

text \<open>\<^verbatim>\<open>enabled: !!sketchId && selectedNodes.length === 2\<close>\<close>

definition routeQuery_enabled :: "jsstring option \<Rightarrow> GraphNode list \<Rightarrow> bool" where
  "routeQuery_enabled sketchId selectedNodes =
     (truthy_str_opt sketchId \<and> length selectedNodes = 2)"

record RouteRequest =
  sketch_id :: "jsstring option"
  origin_node_id :: jsstring
  destination_node_id :: jsstring
  algorithm :: jsstring

text \<open>
  The request the query function posts to \<open>/api/routing/shortest-path\<close>; \<open>None\<close> when
  it returns \<open>null\<close> without a request.
\<close>

definition routeQuery_queryFn :: "jsstring option \<Rightarrow> GraphNode list \<Rightarrow> RouteRequest option" where
  "routeQuery_queryFn sketchId selectedNodes =
     (if length selectedNodes \<noteq> 2 then None
      else Some \<lparr>sketch_id = sketchId,
                 origin_node_id = nodeId (selectedNodes ! 0),
                 destination_node_id = nodeId (selectedNodes ! 1),
                 algorithm = lit ''dijkstra''\<rparr>)"

text \<open>
  The request that leaves the panel on a render: the query library calls the query
  function only for an enabled query.
\<close>

definition route_request :: "jsstring option \<Rightarrow> GraphNode list \<Rightarrow> RouteRequest option" where
  "route_request sketchId selectedNodes =
     (if routeQuery_enabled sketchId selectedNodes
      then routeQuery_queryFn sketchId selectedNodes else None)"

subsection \<open>The query cache\<close>

text \<open>
  Modelled from the spec: the cache of the query library behind \<open>useQuery\<close>, which is
  not part of the repository. The spec has the route request ``identified by a cache
  key composed of the current sketch identifier and the selected node identifiers'',
  ``suppressed otherwise'', ``not retried automatically'' and ``issued exactly once per
  distinct key''. So, on a render, the query function runs when the query is enabled
  and the cache has no entry for its key; the key has an entry from then on.

  A render of the panel is given by the sketch identifier and the selection it sees.
  \<open>route_fetches cache renders\<close> lists, in order, the requests posted over the renders,
  each with the key it was posted under.
\<close>

type_synonym route_key = "jsstring \<times> jsstring option \<times> jsstring list"

fun route_fetches ::
  "route_key list \<Rightarrow> (jsstring option \<times> GraphNode list) list
     \<Rightarrow> (route_key \<times> RouteRequest) list" where
  "route_fetches cache [] = []"
| "route_fetches cache ((sketchId, selectedNodes) # renders) =
     (if routeQuery_enabled sketchId selectedNodes
         \<and> routeQuery_key sketchId selectedNodes \<notin> set cache
      then (case routeQuery_queryFn sketchId selectedNodes of
              None \<Rightarrow> route_fetches (routeQuery_key sketchId selectedNodes # cache) renders
            | Some request \<Rightarrow>
                (routeQuery_key sketchId selectedNodes, request)
                # route_fetches (routeQuery_key sketchId selectedNodes # cache) renders)
      else route_fetches cache renders)"

record RouteResponse =
  success :: bool
  route_r :: "Coordinates list"
  distance_m :: "jsnum option"

definition panel_route :: "RouteResponse UseQueryResult \<Rightarrow> RouteData option" where
  "panel_route routeQuery =
     (case data routeQuery of
        None \<Rightarrow> None
      | Some d \<Rightarrow>
          if success d
          then Some \<lparr>coordinates = route_r d, distanceM = distance_m d,
                     color = Some (lit ''#3b82f6'')\<rparr>
          else None)"

text \<open>The properties \<open>MapPanel\<close> passes to \<open>MapFromAddress\<close>.\<close>

definition MapPanel_props ::
  "GraphNode list \<Rightarrow> GraphNode list \<Rightarrow> RouteResponse UseQueryResult \<Rightarrow> MapFromAddressProps"
  where
  "MapPanel_props nodes selectedNodes routeQuery =
     \<lparr>locations = locationNodes nodes selectedNodes, height = None, zoom = None,
      centerOnFirst = None, route = panel_route routeQuery\<rparr>"

section \<open>Notions used in the properties\<close>

text \<open>
  The base64 encoding with the padding character \<open>=\<close> removed; it is what the
  replacement in \<open>mapId\<close> leaves of an encoding that has neither \<open>+\<close> nor \<open>/\<close>.
\<close>

definition unpadded :: "nat list \<Rightarrow> jsstring" where
  "unpadded xs = filter (\<lambda>c. c \<noteq> 61) (b64enc xs)"

text \<open>
  A point whose strings have no character above U+00FF, the range \<open>btoa\<close> accepts.
\<close>

definition latin1_opt :: "jsstring option \<Rightarrow> bool" where
  "latin1_opt s = (case s of None \<Rightarrow> True | Some t \<Rightarrow> list_all (\<lambda>c. c \<le> 255) t)"

definition latin1_point :: "LocationPoint \<Rightarrow> bool" where
  "latin1_point p =
     (latin1_opt (address p) \<and> latin1_opt (label p) \<and> latin1_opt (geometry p)
      \<and> latin1_opt (nodeType p))"

section \<open>Example inputs\<close>

text \<open>The point \<open>{}\<close> and a query that is idle: no data, not loading, no error.\<close>

definition empty_point :: LocationPoint where
  "empty_point =
     \<lparr>lat = None, lon = None, address = None, label = None, isOrigin = None,
      isDestination = None, geometry = None, nodeType = None\<rparr>"

definition idle_query :: "'d UseQueryResult" where
  "idle_query = \<lparr>data = None, isLoading = False, isError = False\<rparr>"

definition no_properties :: NodeProperties where
  "no_properties =
     \<lparr>latitude = None, longitude = None, address_p = None, name_p = None,
      label_p = None, geometry_p = None\<rparr>"

text \<open>Two location nodes with coordinates, Paris and Lyon.\<close>

definition node_paris :: GraphNode where
  "node_paris =
     \<lparr>nodeId = lit ''n1'', nodeType_n = lit ''location'',
      nodeProperties = no_properties
        \<lparr>latitude := Some (Dec 4885 (- 2)), longitude := Some (Dec 235 (- 2)),
         name_p := Some (lit ''Paris'')\<rparr>\<rparr>"

definition node_lyon :: GraphNode where
  "node_lyon =
     \<lparr>nodeId = lit ''n2'', nodeType_n = lit ''place'',
      nodeProperties = no_properties
        \<lparr>latitude := Some (Dec 4576 (- 2)), longitude := Some (Dec 483 (- 2)),
         name_p := Some (lit ''Lyon'')\<rparr>\<rparr>"

text \<open>A location node that has an address and no coordinates.\<close>

definition address_only_node :: GraphNode where
  "address_only_node =
     \<lparr>nodeId = lit ''n3'', nodeType_n = lit ''location'',
      nodeProperties = no_properties\<lparr>address_p := Some (lit ''10 Downing Street, London'')\<rparr>\<rparr>"

text \<open>A node of another type, located at latitude 51.5 on the prime meridian.\<close>

definition node_on_meridian :: GraphNode where
  "node_on_meridian =
     \<lparr>nodeId = lit ''n4'', nodeType_n = lit ''ip'',
      nodeProperties = no_properties
        \<lparr>latitude := Some (Dec 515 (- 1)), longitude := Some (Dec 0 0)\<rparr>\<rparr>"

text \<open>A location node named in Chinese characters (U+5317, U+4EAC).\<close>

definition node_beijing :: GraphNode where
  "node_beijing =
     \<lparr>nodeId = lit ''n5'', nodeType_n = lit ''location'',
      nodeProperties = no_properties
        \<lparr>latitude := Some (Dec 399 (- 1)), longitude := Some (Dec 1164 (- 1)),
         name_p := Some [21271, 20140]\<rparr>\<rparr>"

text \<open>Points as a caller of \<open>MapFromAddress\<close> writes them.\<close>

definition point_paris :: LocationPoint where
  "point_paris = empty_point\<lparr>lat := Some (Dec 4885 (- 2)), lon := Some (Dec 235 (- 2))\<rparr>"

definition point_lyon :: LocationPoint where
  "point_lyon =
     empty_point\<lparr>lat := Some (Dec 4576 (- 2)), lon := Some (Dec 483 (- 2)),
                 address := Some (lit ''Lyon'')\<rparr>"

definition address_only_paris :: LocationPoint where
  "address_only_paris = empty_point\<lparr>address := Some (lit ''Paris'')\<rparr>"

definition address_beijing :: LocationPoint where
  "address_beijing = empty_point\<lparr>address := Some [21271, 20140]\<rparr>"

definition label_why_question :: LocationPoint where
  "label_why_question = empty_point\<lparr>label := Some (lit ''Why?'')\<rparr>"

definition label_why_greater :: LocationPoint where
  "label_why_greater = empty_point\<lparr>label := Some (lit ''Why>'')\<rparr>"

text \<open>A route of two coordinate pairs, 1500 metres long.\<close>

definition route_two_points :: RouteData where
  "route_two_points =
     \<lparr>coordinates = [(Dec 0 0, Dec 0 0), (Dec 1 0, Dec 1 0)],
      distanceM = Some (Dec 1500 0), color = None\<rparr>"

text \<open>Properties with every optional property left out.\<close>

definition props_of :: "LocationPoint list \<Rightarrow> MapFromAddressProps" where
  "props_of locs =
     \<lparr>locations = locs, height = None, zoom = None, centerOnFirst = None, route = None\<rparr>"

text \<open>
  Geocoding in progress, and geocoding finished without a hit for the one address
  looked up.
\<close>

definition loading_query :: "'d UseQueryResult" where
  "loading_query = \<lparr>data = None, isLoading = True, isError = False\<rparr>"

definition no_hit_query :: "(Coordinates option list) UseQueryResult" where
  "no_hit_query = \<lparr>data = Some [None], isLoading = False, isError = False\<rparr>"

definition error_query :: "'d UseQueryResult" where
  "error_query = \<lparr>data = None, isLoading = False, isError = True\<rparr>"

text \<open>A building at latitude 20, longitude 10, with the given footprint.\<close>

definition building_point :: "jsstring \<Rightarrow> LocationPoint" where
  "building_point g =
     empty_point
       \<lparr>lat := Some (Dec 20 0), lon := Some (Dec 10 0), geometry := Some g,
        nodeType := Some (lit ''building'')\<rparr>"

definition building_with :: "jsstring \<Rightarrow> ProcessedLocation" where
  "building_with g =
     \<lparr>p_location = building_point g,
      p_coordinates = Some (Dec 20 0, Dec 10 0), p_isLoading = False, p_isError = False\<rparr>"

text \<open>The identifier of the surface for the list \<open>[point_paris]\<close>.\<close>

definition mapId_paris :: jsstring where
  "mapId_paris = lit ''leaflet-map-W3sibGF0Ijo0OC44NSwibG9uIjoyLjM1fV0''"

section \<open>Unfolding the definitions on concrete inputs\<close>

text \<open>
  The definitions, collected for the simplifier: with them a closed term of the model
  is computed by rewriting.
\<close>

lemmas js_eval =
  lit_def is_ws_def is_line_terminator_def is_digit_def is_alnum_def to_upper_def trim_def
  or_num_def or_str_def digit_chars_def Number_toString_def digits_of.simps
  hex_digit_def unicode_escape_def is_lead_surrogate_def is_trail_surrogate_def
  quote_json_def json_number_def json_bool_def json_member_def json_location_def
  JSON_stringify_def b64char_def btoa_def mapId_def Let_def

lemmas renderer_eval =
  locationsToGeocode_def geocode_queryKey_def geocode_enabled_def geocode_lookups_def
  processLocation_def processedLocations_def validCoordinates_def
  customIcon_color_def make_marker_def make_polygon_def route_shown_def make_polyline_def
  route_view_calls_def set_map_view_def map_effect_def final_view_def MapFromAddress_def
  render_and_effect_def isNaN_opt_def invalid_LatLng_def invalid_pair_def L_polygon_def

lemmas panel_eval =
  isLocationNode_def locationPoint_def locationNodes_def routeQuery_key_def
  routeQuery_enabled_def routeQuery_queryFn_def route_request_def panel_route_def
  MapPanel_props_def

lemmas example_defs =
  empty_point_def idle_query_def no_properties_def node_paris_def node_lyon_def
  address_only_node_def node_on_meridian_def node_beijing_def point_paris_def
  point_lyon_def address_only_paris_def address_beijing_def label_why_question_def
  label_why_greater_def route_two_points_def props_of_def loading_query_def
  building_point_def building_with_def mapId_paris_def

lemmas wkt_eval =
  parse_wkt_def coordPairs_def parse_pair_def split_ws_def match_here_def Number_def
  parse_decimal_def parse_exponent_def parse_radix_def radix_val_def digit_val_def
  is_radix_digit_def trim_def is_ws_def is_digit_def is_line_terminator_def to_upper_def
  lit_def Let_def

section \<open>Properties of the panel controller\<close>

lemma locationPoint_flags_off:
  "length selectedNodes \<noteq> 2 \<Longrightarrow>
   isOrigin (locationPoint selectedNodes n) = Some False \<and>
   isDestination (locationPoint selectedNodes n) = Some False"
  by (simp add: locationPoint_def)

text \<open>
  Claim C7. Whenever the number of selected nodes is not exactly two, no route request
  is issued (the query is disabled, and the query function itself would return without
  a request) and no derived point is flagged as origin or as destination.
\<close>

theorem no_route_no_flags_unless_two_selected:
  "length selectedNodes \<noteq> 2 \<Longrightarrow>
     \<not> routeQuery_enabled sketchId selectedNodes
     \<and> routeQuery_queryFn sketchId selectedNodes = None
     \<and> route_request sketchId selectedNodes = None
     \<and> (\<forall>p \<in> set (locationNodes nodes selectedNodes).
           isOrigin p = Some False \<and> isDestination p = Some False)"
  by (auto simp: routeQuery_enabled_def routeQuery_queryFn_def route_request_def
      locationNodes_def locationPoint_flags_off)

theorem no_route_no_flags_unless_two_selected_witness:
  "length [node_paris] \<noteq> 2
   \<and> \<not> routeQuery_enabled (Some (lit ''sketch-1'')) [node_paris]
   \<and> route_request (Some (lit ''sketch-1'')) [node_paris] = None
   \<and> map isOrigin (locationNodes [node_paris, node_lyon] [node_paris]) = [Some False, Some False]
   \<and> map isDestination (locationNodes [node_paris, node_lyon] [node_paris])
       = [Some False, Some False]"
  using no_route_no_flags_unless_two_selected
    [of "[node_paris]" "Some (lit ''sketch-1'')" "[node_paris, node_lyon]"]
  by (simp add: locationNodes_def isLocationNode_def node_paris_def node_lyon_def)

subsection \<open>The route request and its key\<close>

lemma routeQuery_key_determines_queryFn:
  assumes "routeQuery_key s sel = routeQuery_key s' sel'"
  shows "routeQuery_queryFn s sel = routeQuery_queryFn s' sel'"
proof -
  from assms have s: "s = s'" and ids: "map nodeId sel = map nodeId sel'"
    by (simp_all add: routeQuery_key_def)
  from ids have len: "length sel = length sel'"
    by (rule map_eq_imp_length_eq)
  have nth: "nodeId (sel ! i) = nodeId (sel' ! i)" if "i < length sel" for i
    using that ids len by (metis nth_map)
  show ?thesis
  proof (cases "length sel = 2")
    case True
    with nth [of 0] nth [of 1] have "nodeId (sel ! 0) = nodeId (sel' ! 0)"
      "nodeId (sel ! 1) = nodeId (sel' ! 1)"
      by simp_all
    with True s len show ?thesis
      by (simp add: routeQuery_queryFn_def)
  next
    case False
    with s len show ?thesis
      by (simp add: routeQuery_queryFn_def)
  qed
qed

text \<open>A request is posted under a key that had no entry in the cache.\<close>

lemma route_fetches_fresh:
  "(k, request) \<in> set (route_fetches cache renders) \<Longrightarrow> k \<notin> set cache"
proof (induction renders arbitrary: cache)
  case Nil
  then show ?case by simp
next
  case (Cons r renders)
  obtain s sel where r: "r = (s, sel)" by (cases r)
  show ?case
  proof (cases "routeQuery_enabled s sel \<and> routeQuery_key s sel \<notin> set cache")
    case False
    with Cons.prems r have "(k, request) \<in> set (route_fetches cache renders)"
      by auto
    then show ?thesis by (rule Cons.IH)
  next
    case True
    with Cons.prems r consider "k = routeQuery_key s sel"
      | "(k, request) \<in> set (route_fetches (routeQuery_key s sel # cache) renders)"
      by (auto split: option.splits)
    then show ?thesis
    proof cases
      case 1
      with True show ?thesis by simp
    next
      case 2
      from Cons.IH [OF 2] show ?thesis by simp
    qed
  qed
qed

text \<open>No key is fetched twice.\<close>

lemma route_fetches_distinct: "distinct (map fst (route_fetches cache renders))"
proof (induction renders arbitrary: cache)
  case Nil
  then show ?case by simp
next
  case (Cons r renders)
  obtain s sel where r: "r = (s, sel)" by (cases r)
  have "routeQuery_key s sel
      \<notin> fst ` set (route_fetches (routeQuery_key s sel # cache) renders)"
    using route_fetches_fresh [of "routeQuery_key s sel" _ "routeQuery_key s sel # cache" renders]
    by auto
  with Cons.IH r show ?case
    by (auto split: option.splits)
qed

text \<open>Every request posted comes from a render, under that render's key.\<close>

lemma route_fetches_origin:
  "(k, request) \<in> set (route_fetches cache renders) \<Longrightarrow>
   \<exists>s sel. (s, sel) \<in> set renders \<and> k = routeQuery_key s sel
     \<and> routeQuery_queryFn s sel = Some request"
proof (induction renders arbitrary: cache)
  case Nil
  then show ?case by simp
next
  case (Cons r renders)
  obtain s sel where r: "r = (s, sel)" by (cases r)
  from Cons.prems r consider
      "k = routeQuery_key s sel" "routeQuery_queryFn s sel = Some request"
    | c where "(k, request) \<in> set (route_fetches c renders)"
    by (auto split: if_splits option.splits)
  then show ?case
  proof cases
    case 1
    with r show ?thesis by auto
  next
    case 2
    from Cons.IH [OF 2] show ?thesis by auto
  qed
qed

text \<open>An enabled render whose key has no entry yet has its key fetched.\<close>

lemma route_fetches_issued:
  "(s, sel) \<in> set renders \<Longrightarrow> routeQuery_enabled s sel \<Longrightarrow>
   routeQuery_key s sel \<notin> set cache \<Longrightarrow>
   routeQuery_key s sel \<in> fst ` set (route_fetches cache renders)"
proof (induction renders arbitrary: cache)
  case Nil
  then show ?case by simp
next
  case (Cons r renders)
  obtain s' sel' where r: "r = (s', sel')" by (cases r)
  let ?k = "routeQuery_key s sel" and ?k' = "routeQuery_key s' sel'"
  show ?case
  proof (cases "routeQuery_enabled s' sel' \<and> ?k' \<notin> set cache")
    case fetch: True
    then obtain request where q: "routeQuery_queryFn s' sel' = Some request"
      by (auto simp: routeQuery_enabled_def routeQuery_queryFn_def)
    show ?thesis
    proof (cases "?k' = ?k")
      case True
      with fetch q r show ?thesis by (simp add: image_iff)
    next
      case False
      with Cons.prems r have mem: "(s, sel) \<in> set renders" by auto
      from False Cons.prems have fresh: "?k \<notin> set (?k' # cache)" by simp
      from Cons.IH [OF mem Cons.prems(2) fresh]
      have "?k \<in> fst ` set (route_fetches (?k' # cache) renders)" .
      with fetch q r show ?thesis by simp
    qed
  next
    case False
    with Cons.prems r have mem: "(s, sel) \<in> set renders" by auto
    from Cons.IH [OF mem Cons.prems(2,3)]
    have "?k \<in> fst ` set (route_fetches cache renders)" .
    with False r show ?thesis by auto
  qed
qed

lemma filter_key_single:
  "distinct (map fst fs) \<Longrightarrow> (k, v) \<in> set fs \<Longrightarrow> filter (\<lambda>f. fst f = k) fs = [(k, v)]"
proof (induction fs)
  case Nil
  then show ?case by simp
next
  case (Cons f fs)
  show ?case
  proof (cases "f = (k, v)")
    case True
    with Cons.prems(1) have "\<forall>g \<in> set fs. fst g \<noteq> k" by auto
    then have "filter (\<lambda>f. fst f = k) fs = []" by (simp add: filter_empty_conv)
    with True show ?thesis by simp
  next
    case False
    with Cons.prems have in_fs: "(k, v) \<in> set fs" by simp
    with Cons.prems(1) have "fst f \<noteq> k" by (auto simp: image_iff)
    moreover from Cons.IH Cons.prems(1) in_fs have "filter (\<lambda>f. fst f = k) fs = [(k, v)]"
      by simp
    ultimately show ?thesis by simp
  qed
qed

text \<open>
  Over any renders that start from an empty cache, the requests posted under the key
  of an enabled render are exactly one, the request of that render.
\<close>

lemma route_fetched_once:
  assumes "(s, sel) \<in> set renders" "routeQuery_enabled s sel"
    "routeQuery_queryFn s sel = Some request"
  shows "filter (\<lambda>f. fst f = routeQuery_key s sel) (route_fetches [] renders)
     = [(routeQuery_key s sel, request)]"
proof -
  from route_fetches_issued [OF assms(1,2), of "[]"]
  obtain request' where f: "(routeQuery_key s sel, request') \<in> set (route_fetches [] renders)"
    by auto
  from route_fetches_origin [OF f] obtain s' sel'
    where "routeQuery_key s sel = routeQuery_key s' sel'"
      "routeQuery_queryFn s' sel' = Some request'"
    by blast
  with routeQuery_key_determines_queryFn [of s sel s' sel'] assms(3)
  have "request' = request" by simp
  with f route_fetches_distinct [of "[]" renders] show ?thesis
    by (simp add: filter_key_single)
qed

text \<open>
  Claim C6, as stated, fails: with exactly two nodes selected and no sketch identifier
  (the route has no \<open>id\<close> parameter) the query is disabled by the guard \<open>!!sketchId\<close>,
  and no route request is issued, on this render or over any number of them.
\<close>

theorem two_selected_without_sketch_no_request:
  "length [node_paris, node_lyon] = 2
   \<and> \<not> routeQuery_enabled None [node_paris, node_lyon]
   \<and> route_request None [node_paris, node_lyon] = None
   \<and> route_fetches [] [(None, [node_paris, node_lyon]), (None, [node_paris, node_lyon])] = []"
  by (simp add: routeQuery_enabled_def route_request_def)

text \<open>
  Claim C6, amended. Whenever exactly two nodes are selected, the point of the first
  selected node is flagged origin and the point of the second destination (the derived
  points carry, in node order, each flag exactly for the nodes with that identifier);
  and, provided the sketch identifier is non-empty, a route request keyed by
  \<open>(sketchId, [first id, second id])\<close>, from the first to the second node, is issued
  exactly once per distinct key: over any sequence of renders that starts from an empty
  cache and contains this one, exactly one request is posted under its key.
\<close>

theorem two_selected_flags_and_route_query:
  "length selectedNodes = 2 \<Longrightarrow>
     map isOrigin (locationNodes nodes selectedNodes)
       = map (\<lambda>n. Some (nodeId n = nodeId (selectedNodes ! 0))) (filter isLocationNode nodes)
     \<and> map isDestination (locationNodes nodes selectedNodes)
       = map (\<lambda>n. Some (nodeId n = nodeId (selectedNodes ! 1))) (filter isLocationNode nodes)
     \<and> (truthy_str_opt sketchId \<longrightarrow>
          routeQuery_enabled sketchId selectedNodes
          \<and> routeQuery_key sketchId selectedNodes
              = (lit ''route'', sketchId,
                 [nodeId (selectedNodes ! 0), nodeId (selectedNodes ! 1)])
          \<and> route_request sketchId selectedNodes
              = Some \<lparr>sketch_id = sketchId,
                       origin_node_id = nodeId (selectedNodes ! 0),
                       destination_node_id = nodeId (selectedNodes ! 1),
                       algorithm = lit ''dijkstra''\<rparr>
          \<and> (\<forall>before after.
                filter (\<lambda>f. fst f = routeQuery_key sketchId selectedNodes)
                  (route_fetches [] (before @ (sketchId, selectedNodes) # after))
                = [(routeQuery_key sketchId selectedNodes,
                    \<lparr>sketch_id = sketchId,
                      origin_node_id = nodeId (selectedNodes ! 0),
                      destination_node_id = nodeId (selectedNodes ! 1),
                      algorithm = lit ''dijkstra''\<rparr>)]))"
proof -
  assume len: "length selectedNodes = 2"
  then obtain a b where sel: "selectedNodes = [a, b]"
    by (cases selectedNodes; cases "tl selectedNodes") auto
  let ?request = "\<lparr>sketch_id = sketchId,
                      origin_node_id = nodeId (selectedNodes ! 0),
                      destination_node_id = nodeId (selectedNodes ! 1),
                      algorithm = lit ''dijkstra''\<rparr>"
  have flags: "map isOrigin (locationNodes nodes selectedNodes)
       = map (\<lambda>n. Some (nodeId n = nodeId (selectedNodes ! 0))) (filter isLocationNode nodes)"
    "map isDestination (locationNodes nodes selectedNodes)
       = map (\<lambda>n. Some (nodeId n = nodeId (selectedNodes ! 1))) (filter isLocationNode nodes)"
    using len by (simp_all add: locationNodes_def locationPoint_def o_def)
  have fn: "routeQuery_queryFn sketchId selectedNodes = Some ?request"
    using len by (simp add: routeQuery_queryFn_def)
  have q: "routeQuery_enabled sketchId selectedNodes
          \<and> routeQuery_key sketchId selectedNodes
              = (lit ''route'', sketchId,
                 [nodeId (selectedNodes ! 0), nodeId (selectedNodes ! 1)])
          \<and> route_request sketchId selectedNodes = Some ?request"
    if "truthy_str_opt sketchId"
    using that fn
    by (simp add: sel routeQuery_enabled_def routeQuery_key_def route_request_def)
  have once: "filter (\<lambda>f. fst f = routeQuery_key sketchId selectedNodes)
                  (route_fetches [] (before @ (sketchId, selectedNodes) # after))
                = [(routeQuery_key sketchId selectedNodes, ?request)]"
    if "truthy_str_opt sketchId" for before after
  proof (rule route_fetched_once)
    show "(sketchId, selectedNodes) \<in> set (before @ (sketchId, selectedNodes) # after)"
      by simp
    from q [OF that] show "routeQuery_enabled sketchId selectedNodes" by simp
    from fn show "routeQuery_queryFn sketchId selectedNodes = Some ?request" .
  qed
  from flags q once show ?thesis
    by blast
qed

theorem two_selected_flags_and_route_query_witness:
  "length [node_paris, node_lyon] = 2
   \<and> truthy_str_opt (Some (lit ''sketch-1''))
   \<and> map isOrigin (locationNodes [node_paris, node_lyon] [node_paris, node_lyon])
       = [Some True, Some False]
   \<and> map isDestination (locationNodes [node_paris, node_lyon] [node_paris, node_lyon])
       = [Some False, Some True]
   \<and> routeQuery_enabled (Some (lit ''sketch-1'')) [node_paris, node_lyon]
   \<and> routeQuery_key (Some (lit ''sketch-1'')) [node_paris, node_lyon]
       = (lit ''route'', Some (lit ''sketch-1''), [lit ''n1'', lit ''n2''])
   \<and> route_request (Some (lit ''sketch-1'')) [node_paris, node_lyon]
       = Some \<lparr>sketch_id = Some (lit ''sketch-1''), origin_node_id = lit ''n1'',
                destination_node_id = lit ''n2'', algorithm = lit ''dijkstra''\<rparr>
   \<and> route_fetches []
        ([(Some (lit ''sketch-1''), [node_paris])]
         @ (Some (lit ''sketch-1''), [node_paris, node_lyon])
         # [(Some (lit ''sketch-1''), [node_paris, node_lyon]),
            (Some (lit ''sketch-1''), [node_lyon, node_paris]),
            (Some (lit ''sketch-1''), [node_paris, node_lyon])])
       = [((lit ''route'', Some (lit ''sketch-1''), [lit ''n1'', lit ''n2'']),
           \<lparr>sketch_id = Some (lit ''sketch-1''), origin_node_id = lit ''n1'',
             destination_node_id = lit ''n2'', algorithm = lit ''dijkstra''\<rparr>),
          ((lit ''route'', Some (lit ''sketch-1''), [lit ''n2'', lit ''n1'']),
           \<lparr>sketch_id = Some (lit ''sketch-1''), origin_node_id = lit ''n2'',
             destination_node_id = lit ''n1'', algorithm = lit ''dijkstra''\<rparr>)]"
  using two_selected_flags_and_route_query
    [of "[node_paris, node_lyon]" "[node_paris, node_lyon]" "Some (lit ''sketch-1'')"]
  by (simp add: node_paris_def node_lyon_def isLocationNode_def lit_def
      routeQuery_enabled_def routeQuery_key_def routeQuery_queryFn_def)

text \<open>
  Claim C1 does not hold of the code: the filter tests the coordinates for truthiness,
  so a node that carries both a latitude and a longitude, one of them \<open>0\<close>, and whose
  type is none of the three, is left out of the derived list. Here the node at
  latitude 51.5, longitude 0 is dropped.
\<close>

theorem node_with_zero_longitude_is_dropped:
  "latitude (nodeProperties node_on_meridian) = Some (Dec 515 (- 1))
   \<and> longitude (nodeProperties node_on_meridian) = Some (Dec 0 0)
   \<and> \<not> isLocationNode node_on_meridian
   \<and> locationNodes [node_paris, node_on_meridian] [] = locationNodes [node_paris] []"
  by (simp add: node_on_meridian_def node_paris_def no_properties_def isLocationNode_def
      locationNodes_def lit_def)

section \<open>Properties of the map renderer\<close>

subsection \<open>The geocoding lookup set\<close>

text \<open>
  Claim C9. For every location point list: a point that carries explicit \<open>lat\<close> and
  \<open>lon\<close> is not in the geocoding lookup set; a point with an address (a non-empty
  string) and neither \<open>lat\<close> nor \<open>lon\<close> is in it, its address is among the addresses the
  query function looks up, and the query is enabled. A list all of whose points carry
  explicit coordinates causes no lookup at all.
\<close>

theorem geocode_set_membership:
  "(loc \<in> set locs \<and> lat loc \<noteq> None \<and> lon loc \<noteq> None \<longrightarrow>
      loc \<notin> set (locationsToGeocode locs))
   \<and> (loc \<in> set locs \<and> lat loc = None \<and> lon loc = None \<and> address loc = Some a \<and> a \<noteq> [] \<longrightarrow>
        loc \<in> set (locationsToGeocode locs) \<and> a \<in> set (geocode_lookups locs)
        \<and> geocode_enabled locs)
   \<and> (list_all (\<lambda>l. lat l \<noteq> None \<and> lon l \<noteq> None) locs \<longrightarrow>
        geocode_lookups locs = [] \<and> \<not> geocode_enabled locs)"
proof -
  have a: "loc \<in> set locs \<and> lat loc \<noteq> None \<and> lon loc \<noteq> None \<longrightarrow>
      loc \<notin> set (locationsToGeocode locs)"
    by (simp add: locationsToGeocode_def)
  have b: "loc \<in> set locs \<and> lat loc = None \<and> lon loc = None \<and> address loc = Some a
      \<and> a \<noteq> [] \<longrightarrow>
        loc \<in> set (locationsToGeocode locs) \<and> a \<in> set (geocode_lookups locs)
        \<and> geocode_enabled locs"
    by (auto simp: locationsToGeocode_def geocode_lookups_def geocode_enabled_def
        filter_empty_conv intro!: bexI [of _ loc])
  have c: "list_all (\<lambda>l. lat l \<noteq> None \<and> lon l \<noteq> None) locs \<longrightarrow>
        geocode_lookups locs = [] \<and> \<not> geocode_enabled locs"
    by (auto simp: locationsToGeocode_def geocode_lookups_def geocode_enabled_def
        list_all_iff filter_empty_conv)
  from a b c show ?thesis by blast
qed

theorem geocode_set_membership_witness:
  "address_only_paris \<in> set [point_lyon, address_only_paris]
   \<and> lat address_only_paris = None \<and> lon address_only_paris = None
   \<and> address address_only_paris = Some (lit ''Paris'') \<and> lit ''Paris'' \<noteq> []
   \<and> point_lyon \<in> set [point_lyon, address_only_paris]
   \<and> lat point_lyon \<noteq> None \<and> lon point_lyon \<noteq> None
   \<and> locationsToGeocode [point_lyon, address_only_paris] = [address_only_paris]
   \<and> geocode_lookups [point_lyon, address_only_paris] = [lit ''Paris'']
   \<and> geocode_enabled [point_lyon, address_only_paris]
   \<and> list_all (\<lambda>l. lat l \<noteq> None \<and> lon l \<noteq> None) [point_lyon, point_paris]
   \<and> geocode_lookups [point_lyon, point_paris] = []
   \<and> \<not> geocode_enabled [point_lyon, point_paris]"
  using geocode_set_membership
    [of address_only_paris "[point_lyon, address_only_paris]" "lit ''Paris''"]
    geocode_set_membership [of point_lyon "[point_lyon, address_only_paris]" "[]"]
    geocode_set_membership [of point_lyon "[point_lyon, point_paris]" "[]"]
  by (simp add: locationsToGeocode_def geocode_lookups_def geocode_enabled_def
      address_only_paris_def point_lyon_def point_paris_def empty_point_def lit_def)

subsection \<open>The rendered output\<close>

text \<open>
  Claim C3, as stated, fails: while geocoding is in progress the output is the loading
  placeholder, also when no coordinate is resolved. Here the only point has an
  address and no coordinates, and the lookup has not answered yet.
\<close>

theorem loading_placeholder_with_no_coordinates:
  "validCoordinates (processedLocations [address_only_paris] loading_query) = []
   \<and> MapFromAddress (props_of [address_only_paris]) loading_query = Inr LoadingPlaceholder"
  by (simp add: js_eval renderer_eval example_defs)

text \<open>
  Claim C3, amended. For every input with zero resolvable coordinates, whatever route
  is supplied, and provided the surface identifier is computed: the output is the
  loading placeholder while geocoding is in progress, else the error placeholder after
  a geocoding failure, else the \<open>No location to display\<close> placeholder; and the effect
  creates no map.
\<close>

theorem placeholder_for_no_coordinates:
  "validCoordinates (processedLocations (locations props) geocodeQuery) = [] \<Longrightarrow>
   mapId (locations props) = Inr i \<Longrightarrow>
     MapFromAddress (props\<lparr>route := r\<rparr>) geocodeQuery
       = Inr (if isLoading geocodeQuery then LoadingPlaceholder
              else if isError geocodeQuery then ErrorPlaceholder
              else NoLocationPlaceholder)
     \<and> render_and_effect (props\<lparr>route := r\<rparr>) geocodeQuery theme
       = Inr (if isLoading geocodeQuery then LoadingPlaceholder
              else if isError geocodeQuery then ErrorPlaceholder
              else NoLocationPlaceholder, None)"
  by (simp add: MapFromAddress_def map_effect_def render_and_effect_def)

theorem placeholder_for_no_coordinates_witness:
  "validCoordinates (processedLocations (locations (props_of [address_only_paris]))
      no_hit_query) = []
   \<and> validCoordinates (processedLocations (locations (props_of [address_only_paris]))
      loading_query) = []
   \<and> validCoordinates (processedLocations (locations (props_of [address_only_paris]))
      error_query) = []
   \<and> mapId (locations (props_of [address_only_paris]))
       = Inr (lit ''leaflet-map-W3siYWRkcmVzcyI6IlBhcmlzIn1d'')
   \<and> MapFromAddress ((props_of [address_only_paris])\<lparr>route := Some route_two_points\<rparr>)
        no_hit_query = Inr NoLocationPlaceholder
   \<and> MapFromAddress ((props_of [address_only_paris])\<lparr>route := Some route_two_points\<rparr>)
        loading_query = Inr LoadingPlaceholder
   \<and> MapFromAddress ((props_of [address_only_paris])\<lparr>route := Some route_two_points\<rparr>)
        error_query = Inr ErrorPlaceholder
   \<and> render_and_effect ((props_of [address_only_paris])\<lparr>route := Some route_two_points\<rparr>)
        no_hit_query (lit ''dark'') = Inr (NoLocationPlaceholder, None)"
proof -
  have v: "validCoordinates (processedLocations (locations (props_of [address_only_paris]))
      no_hit_query) = []"
    "validCoordinates (processedLocations (locations (props_of [address_only_paris]))
      loading_query) = []"
    "validCoordinates (processedLocations (locations (props_of [address_only_paris]))
      error_query) = []"
    by (simp_all add: renderer_eval example_defs no_hit_query_def error_query_def)
  have i: "mapId (locations (props_of [address_only_paris]))
       = Inr (lit ''leaflet-map-W3siYWRkcmVzcyI6IlBhcmlzIn1d'')"
    by (simp add: js_eval example_defs)
  have q: "\<not> isLoading no_hit_query" "\<not> isError no_hit_query"
    "isLoading loading_query" "\<not> isLoading error_query" "isError error_query"
    by (simp_all add: no_hit_query_def loading_query_def error_query_def)
  from placeholder_for_no_coordinates [OF v(1) i, of "Some route_two_points" "lit ''dark''"]
    placeholder_for_no_coordinates [OF v(2) i, of "Some route_two_points" "lit ''dark''"]
    placeholder_for_no_coordinates [OF v(3) i, of "Some route_two_points" "lit ''dark''"]
    v i
  show ?thesis by (simp add: q)
qed

text \<open>
  Claim C4 does not hold of the code: \<open>btoa\<close> throws for a character above U+00FF, and
  the identifier is computed in the component body, outside every \<open>try\<close>. A point whose
  address is written in Chinese characters makes the component throw, called directly
  or through the panel for a node of that name.
\<close>

theorem non_latin1_text_throws:
  "MapFromAddress (props_of [address_beijing]) idle_query = Inl InvalidCharacterError
   \<and> MapFromAddress (MapPanel_props [node_paris, node_beijing] [] idle_query) idle_query
       = Inl InvalidCharacterError"
  by (simp add: js_eval renderer_eval panel_eval example_defs)

subsection \<open>The view after the effect\<close>

lemma set_map_view_single:
  "valid \<noteq> [] \<Longrightarrow> \<exists>c. set_map_view cof z valid ms = [c]"
  by (cases valid rule: list.exhaust; cases "tl valid") (auto simp: set_map_view_def)

lemma set_map_view_not_polyline:
  "fitBounds_pad (PolylineBounds cs) r \<notin> set (set_map_view cof z valid ms)"
  by (simp add: set_map_view_def)

lemma mapId_point_paris: "mapId [point_paris] = Inr mapId_paris"
  by (simp add: js_eval example_defs)

text \<open>
  Claim C2 does not hold of the code: the statement that sets the view follows the
  route block without an \<open>else\<close>, so the fit to the route is always followed by another
  view call. With one point, a route of two coordinate pairs and the default
  \<open>centerOnFirst\<close>, the map surface is rendered, the effect completes, and the view ends
  centred on the point at zoom 15.
\<close>

theorem route_fit_is_overridden:
  "MapFromAddress ((props_of [point_paris])\<lparr>route := Some route_two_points\<rparr>) idle_query
     = Inr (MapSurface mapId_paris (lit ''400px''))
   \<and> map_sum id (map_option view_calls)
       (map_effect (MapSurface mapId_paris (lit ''400px''))
          ((props_of [point_paris])\<lparr>route := Some route_two_points\<rparr>)
          idle_query (lit ''light''))
     = Inr (Some [fitBounds_pad (PolylineBounds [(Dec 0 0, Dec 0 0), (Dec 1 0, Dec 1 0)])
                    (Dec 1 (- 1)),
                  setView (Dec 4885 (- 2), Dec 235 (- 2)) (Dec 15 0)])
   \<and> map_sum id (map_option final_view)
       (map_effect (MapSurface mapId_paris (lit ''400px''))
          ((props_of [point_paris])\<lparr>route := Some route_two_points\<rparr>)
          idle_query (lit ''light''))
     = Inr (Some (Some (setView (Dec 4885 (- 2), Dec 235 (- 2)) (Dec 15 0))))
   \<and> map_sum id (map_option final_view \<circ> snd)
       (render_and_effect ((props_of [point_paris])\<lparr>route := Some route_two_points\<rparr>)
          idle_query (lit ''light''))
     = Inr (Some (Some (setView (Dec 4885 (- 2), Dec 235 (- 2)) (Dec 15 0))))"
proof -
  have r: "MapFromAddress ((props_of [point_paris])\<lparr>route := Some route_two_points\<rparr>)
      idle_query = Inr (MapSurface mapId_paris (lit ''400px''))"
    by (simp add: MapFromAddress_def props_of_def mapId_point_paris idle_query_def)
      (simp add: renderer_eval example_defs)
  have cf: "container_found (MapSurface mapId_paris (lit ''400px''))
      (locations (props_of [point_paris]))"
    by (simp add: container_found_def props_of_def mapId_point_paris)
  have e: "map_effect (MapSurface mapId_paris (lit ''400px''))
          ((props_of [point_paris])\<lparr>route := Some route_two_points\<rparr>)
          idle_query (lit ''light'')
     = Inr (Some
        \<lparr>tile_source = lit ''alidade_smooth'',
         markers = [(\<lparr>position = (Dec 4885 (- 2), Dec 235 (- 2)),
                      icon_color = lit ''#2563eb'', zIndexOffset = 0\<rparr>,
                     CoordinateText (Dec 4885 (- 2), Dec 235 (- 2)))],
         polygons = [],
         polyline = Some \<lparr>line_latlngs = [(Dec 0 0, Dec 0 0), (Dec 1 0, Dec 1 0)],
                           line_color = lit ''#dc2626'',
                           line_popup = Some (DistanceText (Dec 1500 0))\<rparr>,
         view_calls =
           [fitBounds_pad (PolylineBounds [(Dec 0 0, Dec 0 0), (Dec 1 0, Dec 1 0)])
              (Dec 1 (- 1)),
            setView (Dec 4885 (- 2), Dec 235 (- 2)) (Dec 15 0)]\<rparr>)"
    by (simp add: map_effect_def Let_def cf)
      (simp add: renderer_eval example_defs lit_def or_str_def)
  show ?thesis
    by (simp add: render_and_effect_def r e final_view_def)
qed

subsection \<open>The map-surface identifier\<close>

lemma b64char_not_pad [simp]: "b64char n \<noteq> 61"
  unfolding b64char_def by (simp split: if_splits) arith

lemma b64char_class: "is_alnum (b64char n) \<or> b64char n = 43 \<or> b64char n = 47"
  unfolding b64char_def is_alnum_def by (simp split: if_splits) arith

lemma b64char_inj: "m < 64 \<Longrightarrow> n < 64 \<Longrightarrow> b64char m = b64char n \<Longrightarrow> m = n"
  by (simp add: b64char_def split: if_splits)

lemma b64enc_class:
  "c \<in> set (b64enc xs) \<Longrightarrow> is_alnum c \<or> c = 43 \<or> c = 47 \<or> c = 61"
  by (induction xs arbitrary: c rule: b64enc.induct) (use b64char_class in auto)

lemma strip_is_unpad:
  assumes "43 \<notin> set (b64enc xs)" "47 \<notin> set (b64enc xs)"
  shows "filter is_alnum (b64enc xs) = unpadded xs"
  unfolding unpadded_def
proof (rule filter_cong [OF refl])
  fix c assume c: "c \<in> set (b64enc xs)"
  with assms have "c \<noteq> 43" "c \<noteq> 47" by auto
  with b64enc_class [OF c] show "is_alnum c = (c \<noteq> 61)"
    by (auto simp: is_alnum_def)
qed

lemma pack_inj:
  fixes x y x' y' k :: nat
  assumes eq: "x * k + y = x' * k + y'" and y: "y < k" and y': "y' < k"
  shows "x = x' \<and> y = y'"
proof -
  have "(x * k + y) div k = x" using y by simp
  moreover have "(x' * k + y') div k = x'" using y' by simp
  ultimately have "x = x'" using eq by simp
  with eq show ?thesis by simp
qed

lemma div_mod_eqD:
  fixes a a' :: nat
  assumes "a div k = a' div k" "a mod k = a' mod k"
  shows "a = a'"
  using assms by (metis div_mult_mod_eq)

lemma sextet_lt:
  fixes x y :: nat
  shows "x < 4 \<Longrightarrow> y < 16 \<Longrightarrow> x * 16 + y < 64"
    and "x < 16 \<Longrightarrow> y < 4 \<Longrightarrow> x * 4 + y < 64"
  by simp_all

lemma sextet_bounds:
  fixes a b :: nat
  assumes "a < 256" "b < 256"
  shows "a div 4 < 64" "a mod 4 * 16 + b div 16 < 64" "a mod 16 * 4 + b div 64 < 64"
    "a mod 64 < 64"
proof -
  have m4: "a mod 4 < 4" and m16: "a mod 16 < 16" by simp_all
  from assms have d16: "b div 16 < 16" and d64: "b div 64 < 4" by simp_all
  from assms show "a div 4 < 64" by simp
  from sextet_lt(1) [OF m4 d16] show "a mod 4 * 16 + b div 16 < 64" .
  from sextet_lt(2) [OF m16 d64] show "a mod 16 * 4 + b div 64 < 64" .
  show "a mod 64 < 64" by simp
qed

text \<open>
  Reading the characters of a group back: the first two fix the first byte and the
  high half of the second, the third the rest of the second and the top of the third,
  the fourth the rest of the third.
\<close>

lemma first_byte_inj:
  fixes a b a' b' :: nat
  assumes lt: "a < 256" "b < 256" "a' < 256" "b' < 256"
    and c1: "b64char (a div 4) = b64char (a' div 4)"
    and c2: "b64char (a mod 4 * 16 + b div 16) = b64char (a' mod 4 * 16 + b' div 16)"
  shows "a = a' \<and> b div 16 = b' div 16"
proof -
  from b64char_inj [OF sextet_bounds(1) [OF lt(1,2)] sextet_bounds(1) [OF lt(3,4)] c1]
  have d: "a div 4 = a' div 4" .
  from b64char_inj [OF sextet_bounds(2) [OF lt(1,2)] sextet_bounds(2) [OF lt(3,4)] c2]
  have e: "a mod 4 * 16 + b div 16 = a' mod 4 * 16 + b' div 16" .
  from lt have "b div 16 < 16" "b' div 16 < 16" by simp_all
  from pack_inj [OF e this] have "a mod 4 = a' mod 4" "b div 16 = b' div 16" by simp_all
  with d div_mod_eqD [of a 4 a'] show ?thesis by simp
qed

lemma later_byte_inj:
  fixes b c b' c' :: nat
  assumes lt: "b < 256" "c < 256" "b' < 256" "c' < 256"
    and d: "b div 16 = b' div 16"
    and c3: "b64char (b mod 16 * 4 + c div 64) = b64char (b' mod 16 * 4 + c' div 64)"
  shows "b = b' \<and> c div 64 = c' div 64"
proof -
  from b64char_inj [OF sextet_bounds(3) [OF lt(1,2)] sextet_bounds(3) [OF lt(3,4)] c3]
  have e: "b mod 16 * 4 + c div 64 = b' mod 16 * 4 + c' div 64" .
  from lt have "c div 64 < 4" "c' div 64 < 4" by simp_all
  from pack_inj [OF e this] have "b mod 16 = b' mod 16" "c div 64 = c' div 64" by simp_all
  with d div_mod_eqD [of b 16 b'] show ?thesis by simp
qed

lemma last_byte_inj:
  fixes c c' :: nat
  assumes lt: "c < 256" "c' < 256"
    and d: "c div 64 = c' div 64"
    and c4: "b64char (c mod 64) = b64char (c' mod 64)"
  shows "c = c'"
proof -
  from b64char_inj [OF sextet_bounds(4) [OF lt(1,1)] sextet_bounds(4) [OF lt(2,2)] c4]
  have "c mod 64 = c' mod 64" .
  with d show ?thesis by (rule div_mod_eqD)
qed

lemma unpadded_simps:
  "unpadded [] = []"
  "unpadded [a] = [b64char (a div 4), b64char (a mod 4 * 16)]"
  "unpadded [a, b] =
     [b64char (a div 4), b64char (a mod 4 * 16 + b div 16), b64char (b mod 16 * 4)]"
  "unpadded (a # b # c # rest) =
     [b64char (a div 4), b64char (a mod 4 * 16 + b div 16),
      b64char (b mod 16 * 4 + c div 64), b64char (c mod 64)] @ unpadded rest"
  by (simp_all add: unpadded_def)

text \<open>Base64 without its padding is injective on byte strings.\<close>

lemma unpadded_inj:
  "list_all (\<lambda>c. c < 256) xs \<Longrightarrow> list_all (\<lambda>c. c < 256) ys \<Longrightarrow>
   unpadded xs = unpadded ys \<Longrightarrow> xs = ys"
proof (induction xs arbitrary: ys rule: b64enc.induct)
  case 1
  then show ?case by (cases ys rule: b64enc.cases) (simp_all add: unpadded_simps)
next
  case (2 a)
  show ?case
  proof (cases ys rule: b64enc.cases)
    case (2 a')
    with "2.prems" have lt: "a < 256" "a' < 256"
      and c: "b64char (a div 4) = b64char (a' div 4)"
        "b64char (a mod 4 * 16 + 0 div 16) = b64char (a' mod 4 * 16 + 0 div 16)"
      by (simp_all add: unpadded_simps)
    from first_byte_inj [OF lt(1) _ lt(2) _ c] have "a = a'" by simp
    with 2 show ?thesis by simp
  qed (use "2.prems" in \<open>simp_all add: unpadded_simps\<close>)
next
  case (3 a b)
  show ?case
  proof (cases ys rule: b64enc.cases)
    case (3 a' b')
    with "3.prems" have lt: "a < 256" "b < 256" "a' < 256" "b' < 256"
      and c: "b64char (a div 4) = b64char (a' div 4)"
        "b64char (a mod 4 * 16 + b div 16) = b64char (a' mod 4 * 16 + b' div 16)"
        "b64char (b mod 16 * 4 + 0 div 64) = b64char (b' mod 16 * 4 + 0 div 64)"
      by (simp_all add: unpadded_simps)
    from first_byte_inj [OF lt c(1,2)] have ab: "a = a'" "b div 16 = b' div 16" by simp_all
    from later_byte_inj [OF lt(2) _ lt(4) _ ab(2) c(3)] have "b = b'" by simp
    with ab 3 show ?thesis by simp
  qed (use "3.prems" in \<open>simp_all add: unpadded_simps\<close>)
next
  case (4 a b c rest)
  show ?case
  proof (cases ys rule: b64enc.cases)
    case (4 a' b' c' rest')
    with "4.prems" have lt: "a < 256" "b < 256" "c < 256" "a' < 256" "b' < 256" "c' < 256"
      and r: "list_all (\<lambda>c. c < 256) rest" "list_all (\<lambda>c. c < 256) rest'"
      and c: "b64char (a div 4) = b64char (a' div 4)"
        "b64char (a mod 4 * 16 + b div 16) = b64char (a' mod 4 * 16 + b' div 16)"
        "b64char (b mod 16 * 4 + c div 64) = b64char (b' mod 16 * 4 + c' div 64)"
        "b64char (c mod 64) = b64char (c' mod 64)"
      and u: "unpadded rest = unpadded rest'"
      by (simp_all add: unpadded_simps)
    from first_byte_inj [OF lt(1,2,4,5) c(1,2)] have ab: "a = a'" "b div 16 = b' div 16"
      by simp_all
    from later_byte_inj [OF lt(2,3,5,6) ab(2) c(3)] have bc: "b = b'" "c div 64 = c' div 64"
      by simp_all
    from last_byte_inj [OF lt(3,6) bc(2) c(4)] have "c = c'" .
    moreover from "4.IH" [OF r u] have "rest = rest'" .
    ultimately show ?thesis using ab bc 4 by simp
  qed (use "4.prems" in \<open>simp_all add: unpadded_simps\<close>)
qed

lemma mapId_Inr_iff:
  "mapId l = Inr i \<longleftrightarrow>
     \<not> list_ex (\<lambda>c. 255 < c) (JSON_stringify l)
     \<and> i = lit ''leaflet-map-'' @ filter is_alnum (b64enc (JSON_stringify l))"
  by (auto simp: mapId_def btoa_def)

lemma bytes_of_no_ex:
  "\<not> list_ex (\<lambda>c. 255 < c) s \<Longrightarrow> list_all (\<lambda>c. c < (256::nat)) s"
  by (induction s) auto

text \<open>
  Claim C5, as stated, fails: the replacement removes \<open>+\<close>, \<open>/\<close> and \<open>=\<close> from the
  encoding, and the labels \<open>Why?\<close> and \<open>Why>\<close> give encodings that differ in one character
  only, \<open>/\<close> against \<open>+\<close>. The two distinct point lists have the same identifier.
\<close>

theorem distinct_lists_share_mapId:
  "mapId [label_why_question] = Inr (lit ''leaflet-map-W3sibGFiZWwiOiJXaHkIn1d'')
   \<and> mapId [label_why_greater] = Inr (lit ''leaflet-map-W3sibGFiZWwiOiJXaHkIn1d'')
   \<and> [label_why_question] \<noteq> [label_why_greater]"
  by (simp add: js_eval example_defs)

text \<open>
  Claim C5, amended. The identifier is \<open>leaflet-map-\<close> followed by letters and digits
  only, and it is injective up to the characters the replacement removes: two point
  lists with the same identifier, whose serializations have neither \<open>+\<close> nor \<open>/\<close> in
  their base64 encodings, have the same JSON serialization.
\<close>

theorem mapId_shape_and_partial_injectivity:
  "(mapId l = Inr i \<longrightarrow> take 12 i = lit ''leaflet-map-'' \<and> list_all is_alnum (drop 12 i))
   \<and> (mapId l1 = Inr i \<and> mapId l2 = Inr i
       \<and> 43 \<notin> set (b64enc (JSON_stringify l1)) \<and> 47 \<notin> set (b64enc (JSON_stringify l1))
       \<and> 43 \<notin> set (b64enc (JSON_stringify l2)) \<and> 47 \<notin> set (b64enc (JSON_stringify l2))
      \<longrightarrow> JSON_stringify l1 = JSON_stringify l2)"
proof -
  have shape: "take 12 i = lit ''leaflet-map-'' \<and> list_all is_alnum (drop 12 i)"
    if "mapId l = Inr i"
  proof -
    from that have "i = lit ''leaflet-map-'' @ filter is_alnum (b64enc (JSON_stringify l))"
      by (simp add: mapId_Inr_iff)
    moreover have "length (lit ''leaflet-map-'') = 12"
      by (simp add: lit_def)
    ultimately show ?thesis
      by (simp add: list_all_iff)
  qed
  have inj: "JSON_stringify l1 = JSON_stringify l2"
    if ids: "mapId l1 = Inr i" "mapId l2 = Inr i"
      and p1: "43 \<notin> set (b64enc (JSON_stringify l1))" "47 \<notin> set (b64enc (JSON_stringify l1))"
      and p2: "43 \<notin> set (b64enc (JSON_stringify l2))" "47 \<notin> set (b64enc (JSON_stringify l2))"
  proof -
    from ids have bytes: "list_all (\<lambda>c. c < 256) (JSON_stringify l1)"
      "list_all (\<lambda>c. c < 256) (JSON_stringify l2)"
      by (simp_all add: mapId_Inr_iff bytes_of_no_ex)
    from ids have "filter is_alnum (b64enc (JSON_stringify l1))
        = filter is_alnum (b64enc (JSON_stringify l2))"
      by (simp add: mapId_Inr_iff)
    then have "unpadded (JSON_stringify l1) = unpadded (JSON_stringify l2)"
      by (simp only: strip_is_unpad [OF p1] strip_is_unpad [OF p2])
    with bytes show ?thesis
      by (rule unpadded_inj)
  qed
  from shape inj show ?thesis by blast
qed

lemma b64enc_paris:
  "b64enc (JSON_stringify [address_only_paris]) = lit ''W3siYWRkcmVzcyI6IlBhcmlzIn1d''"
  by (simp add: js_eval example_defs)

theorem mapId_shape_and_partial_injectivity_witness:
  "mapId [address_only_paris] = Inr (lit ''leaflet-map-W3siYWRkcmVzcyI6IlBhcmlzIn1d'')
   \<and> 43 \<notin> set (b64enc (JSON_stringify [address_only_paris]))
   \<and> 47 \<notin> set (b64enc (JSON_stringify [address_only_paris]))
   \<and> take 12 (lit ''leaflet-map-W3siYWRkcmVzcyI6IlBhcmlzIn1d'') = lit ''leaflet-map-''
   \<and> list_all is_alnum (drop 12 (lit ''leaflet-map-W3siYWRkcmVzcyI6IlBhcmlzIn1d''))
   \<and> JSON_stringify [address_only_paris] = JSON_stringify [address_only_paris]"
proof -
  have i: "mapId [address_only_paris] = Inr (lit ''leaflet-map-W3siYWRkcmVzcyI6IlBhcmlzIn1d'')"
    by (simp add: mapId_def btoa_def b64enc_paris)
      (simp add: js_eval example_defs)
  have p: "43 \<notin> set (b64enc (JSON_stringify [address_only_paris]))"
    "47 \<notin> set (b64enc (JSON_stringify [address_only_paris]))"
    by (simp_all add: b64enc_paris) (simp_all add: lit_def)
  from mapId_shape_and_partial_injectivity
    [of "[address_only_paris]" "lit ''leaflet-map-W3siYWRkcmVzcyI6IlBhcmlzIn1d''"
        "[address_only_paris]" "[address_only_paris]"] i p
  show ?thesis by simp
qed

subsection \<open>Building footprints\<close>

lemma split_on_nonempty: "split_on sep s \<noteq> []"
  by (induction s) (auto split: list.splits)

lemma length_split_on: "length (split_on sep s) = count_list s sep + 1"
  by (induction s) (auto simp: split_on_nonempty split: list.splits)

lemma length_coordPairs: "length (coordPairs body) = count_list body 44 + 1"
  by (simp add: coordPairs_def length_split_on)

lemma make_polygon_no_parse:
  "geometry (p_location location) = Some g \<Longrightarrow> parse_wkt g = None \<Longrightarrow>
   make_polygon theme location = NotCalled"
  by (simp add: make_polygon_def)

lemma parse_wkt_three_numbers:
  "parse_wkt (lit ''POLYGON((10,20,30))'')
     = Some [(None, Some (Dec 10 0)), (None, Some (Dec 20 0)), (None, Some (Dec 30 0))]"
  by (simp add: wkt_eval)

text \<open>
  Claim C8 does not hold of the code. Its example parses as the claim says, but the
  geometry \<open>POLYGON((10,20,30))\<close>, which has no coordinate pair, is neither skipped nor
  contained: the split on the comma gives three entries, each a longitude without a
  latitude; the guard counts entries, so \<open>L.polygon\<close> is called with them; it takes
  them without throwing, and the effect throws at its first view call, outside the
  \<open>try\<close>.
\<close>

theorem entries_without_latitude_break_effect:
  "parse_wkt (lit ''POLYGON((10 20, 11 21, 12 19))'')
     = Some [(Some (Dec 20 0), Some (Dec 10 0)), (Some (Dec 21 0), Some (Dec 11 0)),
             (Some (Dec 19 0), Some (Dec 12 0))]
   \<and> parse_wkt (lit ''POLYGON((10,20,30))'')
     = Some [(None, Some (Dec 10 0)), (None, Some (Dec 20 0)), (None, Some (Dec 30 0))]
   \<and> make_polygon (lit ''dark'') (building_with (lit ''POLYGON((10,20,30))''))
     = AddedBroken
         \<lparr>latlngs = [(None, Some (Dec 10 0)), (None, Some (Dec 20 0)),
                     (None, Some (Dec 30 0))],
          polygon_color = lit ''#f59e0b'', polygon_popup = lit ''Building''\<rparr>
   \<and> map_sum id is_surface
       (MapFromAddress (props_of [building_point (lit ''POLYGON((10,20,30))'')]) idle_query)
     = Inr True
   \<and> render_and_effect (props_of [building_point (lit ''POLYGON((10,20,30))'')]) idle_query
       (lit ''dark'')
     = Inl LayerTypeError"
proof -
  have ex: "parse_wkt (lit ''POLYGON((10 20, 11 21, 12 19))'')
     = Some [(Some (Dec 20 0), Some (Dec 10 0)), (Some (Dec 21 0), Some (Dec 11 0)),
             (Some (Dec 19 0), Some (Dec 12 0))]"
    by (simp add: wkt_eval)
  have mp: "make_polygon (lit ''dark'') (building_with (lit ''POLYGON((10,20,30))''))
     = AddedBroken
         \<lparr>latlngs = [(None, Some (Dec 10 0)), (None, Some (Dec 20 0)),
                     (None, Some (Dec 30 0))],
          polygon_color = lit ''#f59e0b'', polygon_popup = lit ''Building''\<rparr>"
    by (simp add: make_polygon_def building_with_def building_point_def empty_point_def
        parse_wkt_three_numbers L_polygon_def or_str_def)
      (simp add: lit_def)
  have pl: "processedLocations [building_point (lit ''POLYGON((10,20,30))'')] idle_query
     = [building_with (lit ''POLYGON((10,20,30))'')]"
    by (simp add: processedLocations_def processLocation_def building_with_def
        building_point_def empty_point_def)
  have vc: "validCoordinates [building_with (lit ''POLYGON((10,20,30))'')]
     = [(Dec 20 0, Dec 10 0)]"
    by (simp add: validCoordinates_def building_with_def)
  have bytes: "\<not> list_ex (\<lambda>c. 255 < c)
      (JSON_stringify [building_point (lit ''POLYGON((10,20,30))'')])"
    by (simp add: js_eval building_point_def empty_point_def)
  then obtain i where i: "mapId [building_point (lit ''POLYGON((10,20,30))'')] = Inr i"
    by (simp add: mapId_def btoa_def)
  have r: "MapFromAddress (props_of [building_point (lit ''POLYGON((10,20,30))'')]) idle_query
     = Inr (MapSurface i (lit ''400px''))"
    by (simp add: MapFromAddress_def props_of_def i pl vc)
      (simp add: idle_query_def)
  have e: "map_effect (MapSurface i (lit ''400px''))
      (props_of [building_point (lit ''POLYGON((10,20,30))'')]) idle_query (lit ''dark'')
     = Inl LayerTypeError"
    by (simp add: map_effect_def Let_def props_of_def pl vc mp invalid_LatLng_def
        route_shown_def container_found_def i)
  from ex parse_wkt_three_numbers mp r e show ?thesis
    by (simp add: render_and_effect_def)
qed

text \<open>
  Extra X5. What the guards of the polygon pass do skip: a geometry string that the
  expression does not match, and one whose ring has fewer than three comma-separated
  entries, yield no coordinate list, and \<open>L.polygon\<close> is not called for a location with
  such a geometry.
\<close>

theorem wkt_polygon_parsing:
  "(wkt_match wkt = None \<longrightarrow> parse_wkt wkt = None)
   \<and> (wkt_match wkt = Some body \<and> count_list body 44 + 1 < 3 \<longrightarrow> parse_wkt wkt = None)
   \<and> (geometry (p_location location) = Some wkt \<and> parse_wkt wkt = None \<longrightarrow>
        make_polygon theme location = NotCalled)"
proof -
  have nomatch: "wkt_match wkt = None \<longrightarrow> parse_wkt wkt = None"
    by (simp add: parse_wkt_def)
  have few: "wkt_match wkt = Some body \<and> count_list body 44 + 1 < 3 \<longrightarrow> parse_wkt wkt = None"
    by (simp add: parse_wkt_def length_coordPairs)
  have poly: "geometry (p_location location) = Some wkt \<and> parse_wkt wkt = None \<longrightarrow>
        make_polygon theme location = NotCalled"
    by (simp add: make_polygon_no_parse)
  from nomatch few poly show ?thesis by blast
qed

theorem wkt_polygon_parsing_witness:
  "wkt_match (lit ''LINESTRING(10 20, 11 21, 12 19)'') = None
   \<and> parse_wkt (lit ''LINESTRING(10 20, 11 21, 12 19)'') = None
   \<and> wkt_match (lit ''POLYGON((10 20, 11 21))'') = Some (lit ''10 20, 11 21'')
   \<and> count_list (lit ''10 20, 11 21'') 44 + 1 < 3
   \<and> parse_wkt (lit ''POLYGON((10 20, 11 21))'') = None
   \<and> geometry (p_location (building_with (lit ''POLYGON((10 20, 11 21))'')))
       = Some (lit ''POLYGON((10 20, 11 21))'')
   \<and> make_polygon (lit ''dark'') (building_with (lit ''POLYGON((10 20, 11 21))''))
       = NotCalled"
proof -
  have m1: "wkt_match (lit ''LINESTRING(10 20, 11 21, 12 19)'') = None"
    by (simp add: wkt_eval)
  have m2: "wkt_match (lit ''POLYGON((10 20, 11 21))'') = Some (lit ''10 20, 11 21'')"
    by (simp add: wkt_eval)
  have n: "count_list (lit ''10 20, 11 21'') 44 + 1 < 3"
    by (simp add: lit_def)
  have g: "geometry (p_location (building_with (lit ''POLYGON((10 20, 11 21))'')))
       = Some (lit ''POLYGON((10 20, 11 21))'')"
    by (simp add: building_with_def building_point_def empty_point_def)
  from wkt_polygon_parsing [of "lit ''LINESTRING(10 20, 11 21, 12 19)''"] m1
  have p1: "parse_wkt (lit ''LINESTRING(10 20, 11 21, 12 19)'') = None"
    by simp
  from wkt_polygon_parsing
    [of "lit ''POLYGON((10 20, 11 21))''" "lit ''10 20, 11 21''"
        "building_with (lit ''POLYGON((10 20, 11 21))'')" "lit ''dark''"] m2 n g
  have p2: "parse_wkt (lit ''POLYGON((10 20, 11 21))'') = None"
    "make_polygon (lit ''dark'') (building_with (lit ''POLYGON((10 20, 11 21))'')) = NotCalled"
    by simp_all
  from m1 m2 n g p1 p2 show ?thesis by simp
qed

section \<open>Panel and renderer together\<close>

lemma marker_positions:
  "map (position \<circ> fst) (concat (map (make_marker theme) processed))
     = validCoordinates processed"
  by (induction processed) (auto simp: make_marker_def validCoordinates_def split: option.splits)







text \<open>
  When the effect runs on the map surface, with coordinates that Leaflet accepts and
  no polygon layer that cannot be drawn, it completes, and its markers stand at the
  valid coordinates.
\<close>

lemma map_effect_completes:
  assumes "validCoordinates (processedLocations (locations props) q) \<noteq> []"
    and "mapId (locations props) = Inr i"
    and "\<not> list_ex invalid_LatLng (validCoordinates (processedLocations (locations props) q))"
    and "\<not> (route_shown (route props)
            \<and> list_ex invalid_LatLng (coordinates (the (route props))))"
    and "\<not> list_ex is_broken (map (make_polygon theme) (processedLocations (locations props) q))"
  shows "\<exists>m. map_effect (MapSurface i h) props q theme = Inr (Some m)
     \<and> map (position \<circ> fst) (markers m)
         = validCoordinates (processedLocations (locations props) q)"
  using assms by (simp add: map_effect_def Let_def marker_positions container_found_def)






section \<open>Further properties of the renderer\<close>

text \<open>
  Extra X1. Whenever the effect completes with a map, the view it leaves is the one of
  the statement under \<open>Set map view\<close>: centred on the first valid coordinate when
  \<open>centerOnFirst\<close> holds (the default), else fitted to the markers for more than one
  coordinate, else centred on the single one. It does not depend on the route, and
  it is never the fit to the route.
\<close>

theorem final_view_ignores_route:
  "map_effect output props q theme = Inr (Some m) \<Longrightarrow>
     final_view m
       = Some (if (case centerOnFirst props of None \<Rightarrow> True | Some b \<Rightarrow> b)
               then setView (hd (validCoordinates (processedLocations (locations props) q)))
                      (case zoom props of None \<Rightarrow> Dec 15 0 | Some z \<Rightarrow> z)
               else if length (validCoordinates (processedLocations (locations props) q)) > 1
               then fitBounds_pad (FeatureGroupBounds (map fst (markers m))) (Dec 1 (- 1))
               else setView (hd (validCoordinates (processedLocations (locations props) q)))
                      (case zoom props of None \<Rightarrow> Dec 15 0 | Some z \<Rightarrow> z))
     \<and> final_view m \<noteq> Some (fitBounds_pad (PolylineBounds cs) pad)"
proof -
  assume e: "map_effect output props q theme = Inr (Some m)"
  let ?valid = "validCoordinates (processedLocations (locations props) q)"
  let ?cof = "case centerOnFirst props of None \<Rightarrow> True | Some b \<Rightarrow> b"
  let ?zoom = "case zoom props of None \<Rightarrow> Dec 15 0 | Some z \<Rightarrow> z"
  from e have ne: "?valid \<noteq> []"
    by (auto simp: map_effect_def Let_def split: if_splits)
  from e have vc: "view_calls m
      = route_view_calls (route props) @ set_map_view ?cof ?zoom ?valid (markers m)"
    by (auto simp: map_effect_def Let_def split: if_splits)
  from ne have sv: "set_map_view ?cof ?zoom ?valid (markers m)
      = [if ?cof then setView (hd ?valid) ?zoom
         else if length ?valid > 1
         then fitBounds_pad (FeatureGroupBounds (map fst (markers m))) (Dec 1 (- 1))
         else setView (hd ?valid) ?zoom]"
    by (cases ?valid rule: list.exhaust; cases "tl ?valid") (auto simp: set_map_view_def)
  show ?thesis
    by (simp add: final_view_def vc sv)
qed

theorem final_view_ignores_route_witness:
  "map_effect
      (MapSurface (lit ''leaflet-map-'' @ filter is_alnum (b64enc (JSON_stringify
         [point_paris, point_lyon]))) (lit ''400px''))
      ((props_of [point_paris, point_lyon])
         \<lparr>centerOnFirst := Some False, route := Some route_two_points\<rparr>)
      idle_query (lit ''light'')
     = Inr (Some
        \<lparr>tile_source = lit ''alidade_smooth'',
         markers = [(\<lparr>position = (Dec 4885 (- 2), Dec 235 (- 2)),
                      icon_color = lit ''#2563eb'', zIndexOffset = 0\<rparr>,
                     CoordinateText (Dec 4885 (- 2), Dec 235 (- 2))),
                    (\<lparr>position = (Dec 4576 (- 2), Dec 483 (- 2)),
                      icon_color = lit ''#2563eb'', zIndexOffset = 0\<rparr>,
                     Text (lit ''Lyon''))],
         polygons = [],
         polyline = Some \<lparr>line_latlngs = [(Dec 0 0, Dec 0 0), (Dec 1 0, Dec 1 0)],
                           line_color = lit ''#dc2626'',
                           line_popup = Some (DistanceText (Dec 1500 0))\<rparr>,
         view_calls =
           [fitBounds_pad (PolylineBounds [(Dec 0 0, Dec 0 0), (Dec 1 0, Dec 1 0)])
              (Dec 1 (- 1)),
            fitBounds_pad (FeatureGroupBounds
              [\<lparr>position = (Dec 4885 (- 2), Dec 235 (- 2)),
                 icon_color = lit ''#2563eb'', zIndexOffset = 0\<rparr>,
               \<lparr>position = (Dec 4576 (- 2), Dec 483 (- 2)),
                 icon_color = lit ''#2563eb'', zIndexOffset = 0\<rparr>]) (Dec 1 (- 1))]\<rparr>)
   \<and> final_view
        \<lparr>tile_source = lit ''alidade_smooth'',
         markers = [(\<lparr>position = (Dec 4885 (- 2), Dec 235 (- 2)),
                      icon_color = lit ''#2563eb'', zIndexOffset = 0\<rparr>,
                     CoordinateText (Dec 4885 (- 2), Dec 235 (- 2))),
                    (\<lparr>position = (Dec 4576 (- 2), Dec 483 (- 2)),
                      icon_color = lit ''#2563eb'', zIndexOffset = 0\<rparr>,
                     Text (lit ''Lyon''))],
         polygons = [],
         polyline = Some \<lparr>line_latlngs = [(Dec 0 0, Dec 0 0), (Dec 1 0, Dec 1 0)],
                           line_color = lit ''#dc2626'',
                           line_popup = Some (DistanceText (Dec 1500 0))\<rparr>,
         view_calls =
           [fitBounds_pad (PolylineBounds [(Dec 0 0, Dec 0 0), (Dec 1 0, Dec 1 0)])
              (Dec 1 (- 1)),
            fitBounds_pad (FeatureGroupBounds
              [\<lparr>position = (Dec 4885 (- 2), Dec 235 (- 2)),
                 icon_color = lit ''#2563eb'', zIndexOffset = 0\<rparr>,
               \<lparr>position = (Dec 4576 (- 2), Dec 483 (- 2)),
                 icon_color = lit ''#2563eb'', zIndexOffset = 0\<rparr>]) (Dec 1 (- 1))]\<rparr>
     = Some (fitBounds_pad (FeatureGroupBounds
              [\<lparr>position = (Dec 4885 (- 2), Dec 235 (- 2)),
                 icon_color = lit ''#2563eb'', zIndexOffset = 0\<rparr>,
               \<lparr>position = (Dec 4576 (- 2), Dec 483 (- 2)),
                 icon_color = lit ''#2563eb'', zIndexOffset = 0\<rparr>]) (Dec 1 (- 1)))"
proof -
  have i: "mapId [point_paris, point_lyon]
     = Inr (lit ''leaflet-map-'' @ filter is_alnum (b64enc (JSON_stringify
         [point_paris, point_lyon])))"
    by (simp add: mapId_Inr_iff) (simp add: js_eval example_defs)
  have cf: "container_found
      (MapSurface (lit ''leaflet-map-'' @ filter is_alnum (b64enc (JSON_stringify
         [point_paris, point_lyon]))) (lit ''400px''))
      (locations (props_of [point_paris, point_lyon]))"
    by (simp add: container_found_def props_of_def i)
  have e: "map_effect
      (MapSurface (lit ''leaflet-map-'' @ filter is_alnum (b64enc (JSON_stringify
         [point_paris, point_lyon]))) (lit ''400px''))
      ((props_of [point_paris, point_lyon])
         \<lparr>centerOnFirst := Some False, route := Some route_two_points\<rparr>)
      idle_query (lit ''light'')
     = Inr (Some
        \<lparr>tile_source = lit ''alidade_smooth'',
         markers = [(\<lparr>position = (Dec 4885 (- 2), Dec 235 (- 2)),
                      icon_color = lit ''#2563eb'', zIndexOffset = 0\<rparr>,
                     CoordinateText (Dec 4885 (- 2), Dec 235 (- 2))),
                    (\<lparr>position = (Dec 4576 (- 2), Dec 483 (- 2)),
                      icon_color = lit ''#2563eb'', zIndexOffset = 0\<rparr>,
                     Text (lit ''Lyon''))],
         polygons = [],
         polyline = Some \<lparr>line_latlngs = [(Dec 0 0, Dec 0 0), (Dec 1 0, Dec 1 0)],
                           line_color = lit ''#dc2626'',
                           line_popup = Some (DistanceText (Dec 1500 0))\<rparr>,
         view_calls =
           [fitBounds_pad (PolylineBounds [(Dec 0 0, Dec 0 0), (Dec 1 0, Dec 1 0)])
              (Dec 1 (- 1)),
            fitBounds_pad (FeatureGroupBounds
              [\<lparr>position = (Dec 4885 (- 2), Dec 235 (- 2)),
                 icon_color = lit ''#2563eb'', zIndexOffset = 0\<rparr>,
               \<lparr>position = (Dec 4576 (- 2), Dec 483 (- 2)),
                 icon_color = lit ''#2563eb'', zIndexOffset = 0\<rparr>]) (Dec 1 (- 1))]\<rparr>)"
    by (simp add: map_effect_def Let_def cf)
      (simp add: renderer_eval example_defs lit_def or_str_def)
  from final_view_ignores_route [OF e] e show ?thesis
    by (simp add: final_view_def)
qed

text \<open>
  The effect after a render that showed a placeholder: with a point that has
  coordinates beside one whose address is still looked up, the loading placeholder is
  rendered, the effect finds no element for the map, and \<open>L.map\<close> throws.
\<close>

lemma effect_without_surface_throws:
  "MapFromAddress (props_of [point_paris, address_only_paris]) loading_query
     = Inr LoadingPlaceholder
   \<and> render_and_effect (props_of [point_paris, address_only_paris]) loading_query
       (lit ''light'') = Inl MapContainerNotFound"
proof -
  have r: "MapFromAddress (props_of [point_paris, address_only_paris]) loading_query
     = Inr LoadingPlaceholder"
    by (simp add: js_eval renderer_eval example_defs)
  have e: "map_effect LoadingPlaceholder (props_of [point_paris, address_only_paris])
      loading_query (lit ''light'') = Inl MapContainerNotFound"
    by (simp add: renderer_eval container_found_def example_defs)
  from r e show ?thesis by (simp add: render_and_effect_def)
qed

text \<open>
  Extra X2. The render, that is the component function itself, before any effect,
  throws exactly when the JSON serialization of the point list contains a code unit
  above 255; otherwise it returns one of its four outputs.
\<close>

theorem render_throws_iff:
  "isl (MapFromAddress props q) = list_ex (\<lambda>c. 255 < c) (JSON_stringify (locations props))"
  by (simp add: MapFromAddress_def mapId_def btoa_def)

text \<open>
  Extra X3. The visual states in their priority order: when the identifier is
  computed, the output of the render is the loading placeholder while geocoding is in
  progress, else the error placeholder after a failure, else the empty-state
  placeholder without valid coordinates, else the map surface with that identifier and
  the height given or \<open>400px\<close>.
\<close>

theorem visual_state_priority:
  "mapId (locations props) = Inr i \<Longrightarrow>
     MapFromAddress props q =
       Inr (if isLoading q then LoadingPlaceholder
            else if isError q then ErrorPlaceholder
            else if validCoordinates (processedLocations (locations props) q) = []
              then NoLocationPlaceholder
            else MapSurface i (case height props of None \<Rightarrow> lit ''400px'' | Some h \<Rightarrow> h))"
  by (simp add: MapFromAddress_def)

theorem visual_state_priority_witness:
  "mapId (locations (props_of [point_paris])) = Inr mapId_paris
   \<and> MapFromAddress (props_of [point_paris]) idle_query
       = Inr (MapSurface mapId_paris (lit ''400px''))
   \<and> MapFromAddress (props_of [point_paris]) loading_query = Inr LoadingPlaceholder"
proof -
  have i: "mapId (locations (props_of [point_paris])) = Inr mapId_paris"
    by (simp add: props_of_def mapId_point_paris)
  have v: "validCoordinates (processedLocations (locations (props_of [point_paris])) q)
     = [(Dec 4885 (- 2), Dec 235 (- 2))]" for q
    by (simp add: renderer_eval example_defs)
  from visual_state_priority [OF i, of idle_query] visual_state_priority [OF i, of loading_query]
    i v
  show ?thesis
    by (simp add: idle_query_def loading_query_def props_of_def)
qed

subsection \<open>Inputs that cannot make the component throw\<close>

lemma lit_ascii: "c \<in> set (lit s) \<Longrightarrow> c < 256"
proof -
  have "of_char x < (256::nat)" for x :: char
    by (metis of_char_mod_256 mod_less_divisor zero_less_numeral)
  then show "c \<in> set (lit s) \<Longrightarrow> c < 256"
    by (auto simp: lit_def)
qed

lemma hex_digit_ascii: "hex_digit (n mod 16) < 128"
proof -
  have "n mod 16 < 16" by simp
  then show ?thesis unfolding hex_digit_def by (simp only: split: if_splits) linarith
qed

lemma unicode_escape_ascii: "c \<in> set (unicode_escape n) \<Longrightarrow> c < 128"
  using hex_digit_ascii by (auto simp: unicode_escape_def)

lemma quote_body_chars: "c \<in> set (quote_body s) \<Longrightarrow> c \<in> set s \<or> c < 128"
proof (induction s rule: quote_body.induct)
  case 1
  then show ?case by simp
next
  case (2 d)
  then show ?case
    by (auto split: if_splits dest: unicode_escape_ascii)
next
  case (3 a b ds)
  then show ?case
    by (auto split: if_splits dest: unicode_escape_ascii)
qed

lemma quote_json_chars: "c \<in> set (quote_json s) \<Longrightarrow> c \<in> set s \<or> c < 128"
  by (auto simp: quote_json_def dest: quote_body_chars)

lemma digits_of_lt: "d \<in> set (digits_of n) \<Longrightarrow> d < 10"
proof (induction n rule: digits_of.induct)
  case (1 n)
  then show ?case
    by (subst (asm) (2) digits_of.simps) (auto split: if_splits)
qed

lemma digit_chars_ascii: "c \<in> set (digit_chars (digits_of n)) \<Longrightarrow> c < 128"
  by (auto simp: digit_chars_def dest: digits_of_lt)


lemma Number_toString_ascii: "c \<in> set (Number_toString x) \<Longrightarrow> c < 256"
proof (cases x)
  case NaN
  then show "c \<in> set (Number_toString x) \<Longrightarrow> c < 256"
    by (auto simp: Number_toString_def dest: lit_ascii)
next
  case (Infinity neg)
  then show "c \<in> set (Number_toString x) \<Longrightarrow> c < 256"
    by (auto simp: Number_toString_def dest: lit_ascii split: if_splits)
next
  case (Dec m e)
  have dc: "c < 256" if "c \<in> set (digit_chars ds)" "\<forall>d \<in> set ds. d < 10" for ds
    using that by (auto simp: digit_chars_def)
  have d0: "\<forall>d \<in> set (digits_of n). d < 10" for n
    by (auto dest: digits_of_lt)
  have d1: "\<forall>d \<in> set (rev (dropWhile (\<lambda>d. d = 0) (rev (digits_of n)))). d < 10" for n
    using d0 [of n] by (auto dest: set_dropWhileD)
  assume "c \<in> set (Number_toString x)"
  with Dec show "c < 256"
    by (auto simp: Number_toString_def Let_def split: if_splits
        dest!: lit_ascii in_set_takeD in_set_dropD dc [OF _ d0] dc [OF _ d1])
qed

lemma join_with_chars:
  "c \<in> set (join_with sep xs) \<Longrightarrow> c \<in> set sep \<or> (\<exists>x \<in> set xs. c \<in> set x)"
  by (induction sep xs rule: join_with.induct) auto

lemma json_member_chars:
  assumes "x \<in> set (json_member key enc v)" "c \<in> set x"
    and "\<And>y. v = Some y \<Longrightarrow> c \<in> set (enc y) \<Longrightarrow> c < 256"
  shows "c < 256"
  using assms
  by (auto simp: json_member_def split: option.splits
      dest!: quote_json_chars lit_ascii)


lemma quote_json_latin1:
  "latin1_opt v \<Longrightarrow> v = Some y \<Longrightarrow> c \<in> set (quote_json y) \<Longrightarrow> c < 256"
  by (auto simp: latin1_opt_def list_all_iff dest!: quote_json_chars)

lemma json_number_ascii: "c \<in> set (json_number x) \<Longrightarrow> c < 256"
  by (cases x) (auto simp: json_number_def dest: lit_ascii Number_toString_ascii)

lemma json_bool_ascii: "c \<in> set (json_bool b) \<Longrightarrow> c < 256"
  by (auto simp: json_bool_def dest: lit_ascii split: if_splits)

lemma json_location_latin1:
  assumes "latin1_point p" "c \<in> set (json_location p)"
  shows "c < 256"
proof -
  from assms(1) have l: "latin1_opt (address p)" "latin1_opt (label p)"
    "latin1_opt (geometry p)" "latin1_opt (nodeType p)"
    by (simp_all add: latin1_point_def)
  from assms(2) consider "c = 123" | "c = 125" | "c = 44"
    | x where "c \<in> set x" "x \<in> set (json_member ''lat'' json_number (lat p))"
    | x where "c \<in> set x" "x \<in> set (json_member ''lon'' json_number (lon p))"
    | x where "c \<in> set x" "x \<in> set (json_member ''address'' quote_json (address p))"
    | x where "c \<in> set x" "x \<in> set (json_member ''label'' quote_json (label p))"
    | x where "c \<in> set x" "x \<in> set (json_member ''isOrigin'' json_bool (isOrigin p))"
    | x where "c \<in> set x"
        "x \<in> set (json_member ''isDestination'' json_bool (isDestination p))"
    | x where "c \<in> set x" "x \<in> set (json_member ''geometry'' quote_json (geometry p))"
    | x where "c \<in> set x" "x \<in> set (json_member ''nodeType'' quote_json (nodeType p))"
    by (auto simp: json_location_def dest!: join_with_chars)
  then show ?thesis
  proof cases
    case (4 x)
    show ?thesis
      by (rule json_member_chars [OF 4(2) 4(1)]) (rule json_number_ascii)
  next
    case (5 x)
    show ?thesis
      by (rule json_member_chars [OF 5(2) 5(1)]) (rule json_number_ascii)
  next
    case (6 x)
    show ?thesis
      by (rule json_member_chars [OF 6(2) 6(1)]) (rule quote_json_latin1 [OF l(1)])
  next
    case (7 x)
    show ?thesis
      by (rule json_member_chars [OF 7(2) 7(1)]) (rule quote_json_latin1 [OF l(2)])
  next
    case (8 x)
    show ?thesis
      by (rule json_member_chars [OF 8(2) 8(1)]) (rule json_bool_ascii)
  next
    case (9 x)
    show ?thesis
      by (rule json_member_chars [OF 9(2) 9(1)]) (rule json_bool_ascii)
  next
    case (10 x)
    show ?thesis
      by (rule json_member_chars [OF 10(2) 10(1)]) (rule quote_json_latin1 [OF l(3)])
  next
    case (11 x)
    show ?thesis
      by (rule json_member_chars [OF 11(2) 11(1)]) (rule quote_json_latin1 [OF l(4)])
  qed simp_all
qed

lemma JSON_stringify_latin1:
  assumes "list_all latin1_point locs" "c \<in> set (JSON_stringify locs)"
  shows "c < 256"
  using assms
  by (auto simp: JSON_stringify_def list_all_iff dest!: join_with_chars json_location_latin1)

text \<open>
  Extra X4. A render and its effect throw nothing when: the address, label, geometry
  and node type strings of the points have no character above U+00FF; the geocoding
  query is neither loading nor in error; no valid coordinate and no coordinate of a
  route that is drawn is \<open>NaN\<close>; and no building footprint gives a layer that cannot be
  drawn. The render then returns its output and the effect completes.
\<close>

theorem well_formed_input_does_not_throw:
  "list_all latin1_point (locations props) \<Longrightarrow>
   \<not> isLoading q \<Longrightarrow> \<not> isError q \<Longrightarrow>
   \<not> list_ex invalid_LatLng (validCoordinates (processedLocations (locations props) q)) \<Longrightarrow>
   \<not> (route_shown (route props) \<and> list_ex invalid_LatLng (coordinates (the (route props)))) \<Longrightarrow>
   \<not> list_ex is_broken (map (make_polygon theme) (processedLocations (locations props) q)) \<Longrightarrow>
   \<exists>output m. render_and_effect props q theme = Inr (output, m)"
proof -
  assume l: "list_all latin1_point (locations props)"
    and st: "\<not> isLoading q" "\<not> isError q"
    and ok: "\<not> list_ex invalid_LatLng
        (validCoordinates (processedLocations (locations props) q))"
    and rt: "\<not> (route_shown (route props)
        \<and> list_ex invalid_LatLng (coordinates (the (route props))))"
    and pg: "\<not> list_ex is_broken
        (map (make_polygon theme) (processedLocations (locations props) q))"
  from l have "\<not> list_ex (\<lambda>c. 255 < c) (JSON_stringify (locations props))"
    by (auto simp: list_ex_iff dest: JSON_stringify_latin1)
  then obtain i where i: "mapId (locations props) = Inr i"
    by (simp add: mapId_def btoa_def)
  show ?thesis
  proof (cases "validCoordinates (processedLocations (locations props) q) = []")
    case True
    with i show ?thesis
      by (simp add: render_and_effect_def MapFromAddress_def map_effect_def)
  next
    case False
    with i st have r: "MapFromAddress props q
        = Inr (MapSurface i (case height props of None \<Rightarrow> lit ''400px'' | Some h \<Rightarrow> h))"
      by (simp add: MapFromAddress_def)
    from map_effect_completes [OF False i ok rt pg] obtain m
      where "map_effect (MapSurface i (case height props of None \<Rightarrow> lit ''400px'' | Some h \<Rightarrow> h))
          props q theme = Inr (Some m)"
      by blast
    with r show ?thesis
      by (simp add: render_and_effect_def)
  qed
qed

theorem well_formed_input_does_not_throw_witness:
  "list_all latin1_point (locations (props_of [point_lyon, point_paris]))
   \<and> \<not> isLoading idle_query \<and> \<not> isError idle_query
   \<and> \<not> list_ex invalid_LatLng
        (validCoordinates (processedLocations (locations (props_of [point_lyon, point_paris]))
           idle_query))
   \<and> \<not> route_shown (route (props_of [point_lyon, point_paris]))
   \<and> \<not> list_ex is_broken
        (map (make_polygon (lit ''dark''))
           (processedLocations (locations (props_of [point_lyon, point_paris])) idle_query))
   \<and> (\<exists>output m. render_and_effect (props_of [point_lyon, point_paris]) idle_query
          (lit ''dark'') = Inr (output, m))"
proof -
  have l: "list_all latin1_point (locations (props_of [point_lyon, point_paris]))"
    by (simp add: latin1_point_def latin1_opt_def example_defs lit_def)
  have st: "\<not> isLoading idle_query" "\<not> isError idle_query"
    by (simp_all add: idle_query_def)
  have ok: "\<not> list_ex invalid_LatLng
        (validCoordinates (processedLocations (locations (props_of [point_lyon, point_paris]))
           idle_query))"
    by (simp add: renderer_eval example_defs)
  have nr: "\<not> route_shown (route (props_of [point_lyon, point_paris]))"
    by (simp add: route_shown_def props_of_def)
  then have rt: "\<not> (route_shown (route (props_of [point_lyon, point_paris]))
      \<and> list_ex invalid_LatLng (coordinates (the (route (props_of [point_lyon, point_paris])))))"
    by (rule contrapos_nn) (erule conjunct1)
  have pg: "\<not> list_ex is_broken
        (map (make_polygon (lit ''dark''))
           (processedLocations (locations (props_of [point_lyon, point_paris])) idle_query))"
    by (simp add: renderer_eval example_defs)
  from well_formed_input_does_not_throw [OF l st ok rt pg] l st ok nr pg
  show ?thesis by (intro conjI)
qed

end
